theory Spec2Isabelle
  imports Main
begin

section \<open>The SciDB system catalog: array locks, versions and boundaries\<close>

text \<open>
  A shallow embedding of \<^verbatim>\<open>src/system/catalog/SystemCatalog.cpp\<close>. The PostgreSQL
  tables the catalog works on are lists of rows; every SQL statement of the source is a
  function on these lists that returns the affected-row count and the new table, or the
  libpqxx exception the statement raises. C++ exceptions are values of a sum type
  (\<open>Inl\<close> the exception). Objects the source mutates through a pointer (the
  \<^verbatim>\<open>LockDesc\<close>) are passed in and returned updated.

  The model is the release build: \<^verbatim>\<open>assert\<close> and \<^verbatim>\<open>SCIDB_ASSERT\<close> are
  no-ops, \<^verbatim>\<open>ASSERT_EXCEPTION\<close> always checks and throws. Logging is left out.
\<close>

subsection \<open>Identifiers, enumerations, exceptions\<close>

type_synonym ArrayID = nat
type_synonym VersionID = nat
type_synonym QueryID = nat
type_synonym InstanceID = nat

datatype InstanceRole = INVALID_ROLE | COORD | WORKER

datatype LockMode = INVALID_MODE | RD | WR | CRT | XCL | RM | RNF

text \<open>
  Modelled from the spec: the declaration of \<^verbatim>\<open>LockDesc::InstanceRole\<close> and
  \<^verbatim>\<open>LockDesc::LockMode\<close> (system/SystemCatalog.h) is not among the sources. The
  integer values follow the order in which the spec lists the modes (RD, WR, CRT, XCL,
  RM, RNF), after the invalid value 0; the source itself fixes COORD to 1 (the worker
  statements compare \<^verbatim>\<open>AVL.instance_role=1\<close>).
\<close>

fun roleInt :: "InstanceRole \<Rightarrow> int" where
  "roleInt INVALID_ROLE = 0"
| "roleInt COORD = 1"
| "roleInt WORKER = 2"

fun modeInt :: "LockMode \<Rightarrow> int" where
  "modeInt INVALID_MODE = 0"
| "modeInt RD = 1"
| "modeInt WR = 2"
| "modeInt CRT = 3"
| "modeInt XCL = 4"
| "modeInt RM = 5"
| "modeInt RNF = 6"

text \<open>The libpqxx exceptions the source catches; a \<^verbatim>\<open>sql_error\<close> carries \<^verbatim>\<open>what()\<close>.
  \<^verbatim>\<open>unique_violation\<close> is a \<^verbatim>\<open>sql_error\<close>, and every one of them is a
  \<^verbatim>\<open>pqxx::failure\<close>.\<close>

datatype pqxx_exception =
    broken_connection
  | unique_violation string
  | sql_error string
  | failure

datatype ErrorCode =
    SCIDB_LE_PG_QUERY_EXECUTION_FAILED
  | SCIDB_LE_UNKNOWN_ERROR
  | SCIDB_LE_INVALID_FUNCTION_ARGUMENT
  | SCIDB_LE_DUPLICATE_ATTRIBUTE_NAME
  | SCIDB_LE_PLUGIN_FUNCTION_ACCESS
  | ASSERT_EXCEPTION_FAILED
  | FATAL_CONNECTIVITY_ERROR
  | FATAL_CONFLICT_ERROR

datatype Exception =
    BrokenConnection
  | SystemException ErrorCode
  | UserException ErrorCode
  | LockBusyException
  | TxnIsolationConflict

text \<open>The ids are \<^verbatim>\<open>uint64_t\<close> in the source, and every statement binds them to
  parameters it declares \<^verbatim>\<open>"bigint"\<close>. PostgreSQL's \<^verbatim>\<open>bigint\<close> ends at \<open>2^63 - 1\<close>,
  which is the source's \<^verbatim>\<open>MAX_ARRAYID\<close> and \<^verbatim>\<open>ANY_VERSION\<close>
  (\<^verbatim>\<open>ArrayID(std::numeric_limits<int64_t>::max())\<close>); the store refuses a statement that binds
  a greater value, with an \<^verbatim>\<open>sql_error\<close>.\<close>

definition MAX_ARRAYID :: ArrayID where
  "MAX_ARRAYID = 9223372036854775807"

definition ANY_VERSION :: ArrayID where
  "ANY_VERSION = 9223372036854775807"

definition bigint :: "nat \<Rightarrow> bool" where
  "bigint v \<longleftrightarrow> v < 9223372036854775808"

definition out_of_range :: pqxx_exception where
  "out_of_range = sql_error ''ERROR:  value out of range for type bigint''"

text \<open>The isolation level of a transaction object: \<^verbatim>\<open>work\<close> is libpqxx's
  \<^verbatim>\<open>transaction<read_committed>\<close>; the other kind the source uses is
  \<^verbatim>\<open>pqxx::transaction<pqxx::serializable>\<close>.

  The store is the environment: \<open>store_env\<close> says, for the isolation level of the
  transaction a unit of work opens, whether the store fails it (and with which exception)
  or serves it. A failed transaction is rolled back: it leaves every table as it was. The
  failure is taken to strike when the transaction is opened.\<close>

datatype isolation = read_committed | serializable

type_synonym store_env = "isolation \<Rightarrow> pqxx_exception option"

definition healthy :: store_env where
  "healthy = (\<lambda>_. None)"

subsection \<open>The lock table\<close>

record LockDesc =
  arrayName :: string
  arrayId :: ArrayID
  queryId :: QueryID
  instanceId :: InstanceID
  arrayVersionId :: ArrayID
  arrayCatalogId :: ArrayID
  arrayVersion :: VersionID
  instanceRole :: InstanceRole
  lockMode :: LockMode
  isLocked :: bool

text \<open>The constructor \<^verbatim>\<open>LockDesc::LockDesc\<close>.\<close>

definition newLockDesc ::
  "string \<Rightarrow> QueryID \<Rightarrow> InstanceID \<Rightarrow> InstanceRole \<Rightarrow> LockMode \<Rightarrow> LockDesc" where
  "newLockDesc name q i role m =
     \<lparr>arrayName = name, arrayId = 0, queryId = q, instanceId = i, arrayVersionId = 0,
      arrayCatalogId = 0, arrayVersion = 0, instanceRole = role, lockMode = m,
      isLocked = False\<rparr>"

text \<open>A row of the table \<^verbatim>\<open>array_version_lock\<close>.\<close>

record lock_row =
  array_name :: string
  array_id :: nat
  query_id :: nat
  instance_id :: nat
  array_version_id :: nat
  array_version :: nat
  instance_role :: int
  lock_mode :: int

type_synonym lock_table = "lock_row list"

definition lock_key :: "lock_row \<Rightarrow> string \<times> nat \<times> nat" where
  "lock_key r = (array_name r, query_id r, instance_id r)"

text \<open>
  Modelled from the spec: the DDL of \<^verbatim>\<open>array_version_lock\<close> is not among the
  sources; the spec gives (arrayName, queryId, instanceId) as the table's key, and the
  source handles \<^verbatim>\<open>pqxx::unique_violation\<close> on insert. An INSERT of rows that
  would repeat a key raises it and inserts nothing.
\<close>

definition insert_rows :: "lock_row list \<Rightarrow> lock_table \<Rightarrow> pqxx_exception + nat \<times> lock_table" where
  "insert_rows new tbl =
     (if distinct (map lock_key new) \<and> (\<forall>r \<in> set new. lock_key r \<notin> set (map lock_key tbl))
      then Inr (length new, tbl @ new)
      else Inl (unique_violation ''duplicate key value violates unique constraint''))"

text \<open>The values bound to a prepared statement.\<close>

datatype param = PStr string | PBig nat | PInt int

text \<open>The statements \<^verbatim>\<open>getLockInsertSql\<close> can return. \<open>EmptySql\<close> is the empty
  string the function would return for WR/CRT and a role that is neither COORD nor
  WORKER (which its first check excludes).\<close>

datatype LockInsertSql =
    CoordRdSql
  | CoordWrSql
  | WorkerWrSql
  | CoordExclSql
  | WorkerXclSql
  | EmptySql

definition select_row :: "param list \<Rightarrow> lock_row option" where
  "select_row ps =
     (case ps of
        PStr p1 # PBig p2 # PBig p3 # PBig p4 # PBig p5 # PBig p6 # PInt p7 # PInt p8 # _ \<Rightarrow>
          Some \<lparr>array_name = p1, array_id = p2, query_id = p3, instance_id = p4,
                array_version_id = p5, array_version = p6, instance_role = p7, lock_mode = p8\<rparr>
      | _ \<Rightarrow> None)"

definition copy_row :: "nat \<Rightarrow> int \<Rightarrow> lock_row \<Rightarrow> lock_row" where
  "copy_row p3 p4 r = r\<lparr>instance_id := p3, instance_role := p4\<rparr>"

definition bad_statement :: pqxx_exception where
  "bad_statement = sql_error ''ERROR:  wrong number or type of parameters''"

text \<open>A value the store accepts for the parameter it is bound to.\<close>

fun bindable :: "param \<Rightarrow> bool" where
  "bindable (PBig v) = bigint v"
| "bindable (PStr v) = True"
| "bindable (PInt v) = True"

text \<open>What each INSERT does to the table once its parameters are accepted, with the
  parameters numbered as in the SQL text of \<^verbatim>\<open>getLockInsertSql\<close>.\<close>

definition lockInsertRows ::
  "LockInsertSql \<Rightarrow> param list \<Rightarrow> lock_table \<Rightarrow> pqxx_exception + nat \<times> lock_table" where
  "lockInsertRows sql ps tbl =
     (case sql of
        CoordRdSql \<Rightarrow>
          (case (select_row ps, drop 8 ps) of
             (Some row, [PInt p9, PInt p10]) \<Rightarrow>
               if \<exists>avl \<in> set tbl. array_name avl = array_name row \<and> lock_mode avl > p9
                                   \<and> instance_role avl = p10
               then Inr (0, tbl) else insert_rows [row] tbl
           | _ \<Rightarrow> Inl bad_statement)
      | CoordWrSql \<Rightarrow>
          (case (select_row ps, drop 8 ps) of
             (Some row, [PInt p9]) \<Rightarrow>
               if \<exists>avl \<in> set tbl. array_name avl = array_name row
                                   \<and> query_id avl \<noteq> query_id row \<and> lock_mode avl > p9
               then Inr (0, tbl) else insert_rows [row] tbl
           | _ \<Rightarrow> Inl bad_statement)
      | WorkerWrSql \<Rightarrow>
          (case ps of
             [PStr p1, PBig p2, PBig p3, PInt p4, PInt p5, PInt p6] \<Rightarrow>
               insert_rows
                 (map (copy_row p3 p4)
                    (filter (\<lambda>avl. array_name avl = p1 \<and> query_id avl = p2
                                     \<and> instance_role avl = 1
                                     \<and> (lock_mode avl = p5 \<or> lock_mode avl = p6)) tbl)) tbl
           | _ \<Rightarrow> Inl bad_statement)
      | CoordExclSql \<Rightarrow>
          (case (select_row ps, drop 8 ps) of
             (Some row, []) \<Rightarrow>
               if \<exists>avl \<in> set tbl. array_name avl = array_name row
                                   \<and> query_id avl \<noteq> query_id row
               then Inr (0, tbl) else insert_rows [row] tbl
           | _ \<Rightarrow> Inl bad_statement)
      | WorkerXclSql \<Rightarrow>
          (case ps of
             [PStr p1, PBig p2, PBig p3, PInt p4, PInt p5] \<Rightarrow>
               insert_rows
                 (map (copy_row p3 p4)
                    (filter (\<lambda>avl. array_name avl = p1 \<and> query_id avl = p2
                                     \<and> instance_role avl = 1 \<and> lock_mode avl = p5
                                     \<and> \<not> (\<exists>avl2 \<in> set tbl. array_name avl2 = p1
                                              \<and> query_id avl2 = p2 \<and> instance_id avl2 = p3))
                       tbl)) tbl
           | _ \<Rightarrow> Inl bad_statement)
      | EmptySql \<Rightarrow> Inl bad_statement)"

text \<open>Executing the prepared INSERT on the values bound to it.\<close>

definition execLockInsert ::
  "LockInsertSql \<Rightarrow> param list \<Rightarrow> lock_table \<Rightarrow> pqxx_exception + nat \<times> lock_table" where
  "execLockInsert sql ps tbl =
     (if list_all bindable ps then lockInsertRows sql ps tbl else Inl out_of_range)"

text \<open>\<^verbatim>\<open>select array_id, array_version_id, array_version from array_version_lock
  where array_name=$1 and query_id=$2 and instance_id=$3\<close>. The source runs it only
  after an INSERT that bound the same three values, so they are accepted.\<close>

definition lockReadSql :: "string \<Rightarrow> nat \<Rightarrow> nat \<Rightarrow> lock_table \<Rightarrow> lock_row list" where
  "lockReadSql p1 p2 p3 tbl =
     filter (\<lambda>r. array_name r = p1 \<and> query_id r = p2 \<and> instance_id r = p3) tbl"

text \<open>\<^verbatim>\<open>SystemCatalog::getLockInsertSql\<close>\<close>

definition getLockInsertSql :: "LockDesc \<Rightarrow> Exception + LockInsertSql" where
  "getLockInsertSql lockDesc =
     (if \<not> (instanceRole lockDesc = COORD \<or> instanceRole lockDesc = WORKER)
      then Inl (SystemException ASSERT_EXCEPTION_FAILED)
      else if lockMode lockDesc = RD then
        (if instanceRole lockDesc = COORD then Inr CoordRdSql
         else Inl (SystemException SCIDB_LE_INVALID_FUNCTION_ARGUMENT))
      else if lockMode lockDesc = WR \<or> lockMode lockDesc = CRT then
        (if instanceRole lockDesc = COORD then Inr CoordWrSql
         else if instanceRole lockDesc = WORKER then
           (if lockMode lockDesc = CRT then Inl (SystemException SCIDB_LE_INVALID_FUNCTION_ARGUMENT)
            else Inr WorkerWrSql)
         else Inr EmptySql)
      else if lockMode lockDesc = RM \<or> lockMode lockDesc = RNF \<or> lockMode lockDesc = XCL then
        (if instanceRole lockDesc = COORD then Inr CoordExclSql
         else if instanceRole lockDesc = WORKER \<and> lockMode lockDesc = XCL then Inr WorkerXclSql
         else Inl (SystemException SCIDB_LE_INVALID_FUNCTION_ARGUMENT))
      else Inl (SystemException SCIDB_LE_INVALID_FUNCTION_ARGUMENT))"

text \<open>What is thrown inside a \<^verbatim>\<open>try\<close> block: a libpqxx exception, which the
  \<^verbatim>\<open>catch\<close> clauses of the function handle, or a SciDB exception, which passes
  through them.\<close>

datatype thrown = Pq pqxx_exception | Sci Exception

definition stamp :: "lock_row \<Rightarrow> LockDesc \<Rightarrow> LockDesc" where
  "stamp r lockDesc =
     lockDesc\<lparr>arrayVersion := array_version r, arrayId := array_id r,
              arrayVersionId := array_version_id r\<rparr>"

definition coordParams :: "LockDesc \<Rightarrow> param list" where
  "coordParams lockDesc =
     [PStr (arrayName lockDesc), PBig (arrayId lockDesc), PBig (queryId lockDesc),
      PBig (instanceId lockDesc), PBig (arrayVersionId lockDesc), PBig (arrayVersion lockDesc),
      PInt (roleInt (instanceRole lockDesc)), PInt (modeInt (lockMode lockDesc))]"

definition noRead ::
  "LockDesc \<Rightarrow> pqxx_exception + nat \<times> lock_table \<Rightarrow> thrown + nat \<times> LockDesc \<times> lock_table" where
  "noRead lockDesc res =
     (case res of Inl e \<Rightarrow> Inl (Pq e) | Inr (n, tbl') \<Rightarrow> Inr (n, lockDesc, tbl'))"

text \<open>The statements \<^verbatim>\<open>_lockArray\<close> runs between \<^verbatim>\<open>LOCK TABLE\<close> and the test of
  \<^verbatim>\<open>affectedRows\<close>; the result is \<^verbatim>\<open>affectedRows\<close>, the lock descriptor and the
  table. \<^verbatim>\<open>LOCK TABLE array_version_lock\<close> changes no row. After a worker's WR
  insert of one row the source reads row 0 of the lock just inserted; the model gives
  the empty result of that read a branch of its own, which is never taken.\<close>

definition lockArray_txn ::
  "LockInsertSql \<Rightarrow> LockDesc \<Rightarrow> lock_table \<Rightarrow> thrown + nat \<times> LockDesc \<times> lock_table" where
  "lockArray_txn lockInsertSql lockDesc tbl =
     (if lockMode lockDesc = RD then
        (if instanceRole lockDesc = COORD then
           noRead lockDesc
             (execLockInsert lockInsertSql
                (coordParams lockDesc @ [PInt (modeInt CRT), PInt (roleInt COORD)]) tbl)
         else Inr (0, lockDesc, tbl))
      else if lockMode lockDesc = WR \<or> lockMode lockDesc = CRT then
        (if instanceRole lockDesc = COORD then
           noRead lockDesc
             (execLockInsert lockInsertSql (coordParams lockDesc @ [PInt (modeInt RD)]) tbl)
         else if instanceRole lockDesc = WORKER then
           (case execLockInsert lockInsertSql
                   [PStr (arrayName lockDesc), PBig (queryId lockDesc), PBig (instanceId lockDesc),
                    PInt (roleInt WORKER), PInt (modeInt WR), PInt (modeInt CRT)] tbl of
              Inl e \<Rightarrow> Inl (Pq e)
            | Inr (n, tbl') \<Rightarrow>
                if n = 1 then
                  (case lockReadSql (arrayName lockDesc) (queryId lockDesc) (instanceId lockDesc) tbl' of
                     r # _ \<Rightarrow> Inr (n, stamp r lockDesc, tbl')
                   | [] \<Rightarrow> Inl (Pq failure))
                else Inr (n, lockDesc, tbl'))
         else Inr (0, lockDesc, tbl))
      else if lockMode lockDesc = XCL then
        (if instanceRole lockDesc = COORD then
           noRead lockDesc (execLockInsert lockInsertSql (coordParams lockDesc) tbl)
         else if instanceRole lockDesc = WORKER then
           (case execLockInsert lockInsertSql
                   [PStr (arrayName lockDesc), PBig (queryId lockDesc), PBig (instanceId lockDesc),
                    PInt (roleInt WORKER), PInt (modeInt XCL)] tbl of
              Inl e \<Rightarrow> Inl (Pq e)
            | Inr (n, tbl') \<Rightarrow>
                if n = 1 \<or> n = 0 then
                  (case lockReadSql (arrayName lockDesc) (queryId lockDesc) (instanceId lockDesc) tbl' of
                     [r] \<Rightarrow> Inr (1, stamp r lockDesc, tbl')
                   | [] \<Rightarrow> Inr (0, lockDesc, tbl')
                   | _ \<Rightarrow> Inl (Sci (SystemException ASSERT_EXCEPTION_FAILED)))
                else Inl (Sci (SystemException ASSERT_EXCEPTION_FAILED)))
         else Inr (0, lockDesc, tbl))
      else if lockMode lockDesc = RM then
        noRead lockDesc (execLockInsert lockInsertSql (coordParams lockDesc) tbl)
      else if lockMode lockDesc = RNF then
        (if instanceRole lockDesc = COORD then
           noRead lockDesc (execLockInsert lockInsertSql (coordParams lockDesc) tbl)
         else if instanceRole lockDesc = WORKER then
           noRead lockDesc
             (execLockInsert lockInsertSql
                [PStr (arrayName lockDesc), PBig (queryId lockDesc), PBig (instanceId lockDesc),
                 PInt (roleInt WORKER), PInt (roleInt COORD), PInt (modeInt RNF)] tbl)
         else Inr (0, lockDesc, tbl))
      else Inr (0, lockDesc, tbl))"

text \<open>The \<^verbatim>\<open>catch\<close> clauses of \<^verbatim>\<open>_lockArray\<close>, in the source's order.\<close>

definition lockArray_catch :: "LockDesc \<Rightarrow> pqxx_exception \<Rightarrow> Exception + bool" where
  "lockArray_catch lockDesc e =
     (case e of
        unique_violation w \<Rightarrow>
          if \<not> isLocked lockDesc then Inl (SystemException SCIDB_LE_UNKNOWN_ERROR)
          else if instanceRole lockDesc \<noteq> COORD then Inl (SystemException ASSERT_EXCEPTION_FAILED)
          else Inr True
      | broken_connection \<Rightarrow> Inl BrokenConnection
      | sql_error w \<Rightarrow> Inl (SystemException SCIDB_LE_PG_QUERY_EXECUTION_FAILED)
      | failure \<Rightarrow> Inl (SystemException SCIDB_LE_UNKNOWN_ERROR))"

text \<open>\<^verbatim>\<open>SystemCatalog::_lockArray\<close>. The error checker is a \<^verbatim>\<open>boost::function\<close>:
  \<open>None\<close> when it is empty, otherwise the value it returns when called. The transaction
  is a \<^verbatim>\<open>work\<close>; an exception leaves it uncommitted, so the table is as before.\<close>

definition lockArray_impl ::
  "store_env \<Rightarrow> lock_table \<Rightarrow> LockDesc \<Rightarrow> bool option
     \<Rightarrow> (Exception + bool) \<times> LockDesc \<times> lock_table" where
  "lockArray_impl env tbl lockDesc errorChecker =
     (case getLockInsertSql lockDesc of
        Inl e \<Rightarrow> (Inl e, lockDesc, tbl)
      | Inr lockInsertSql \<Rightarrow>
          (case env read_committed of
             Some e \<Rightarrow> (lockArray_catch lockDesc e, lockDesc, tbl)
           | None \<Rightarrow>
               (case lockArray_txn lockInsertSql lockDesc tbl of
                  Inl (Pq e) \<Rightarrow> (lockArray_catch lockDesc e, lockDesc, tbl)
                | Inl (Sci e) \<Rightarrow> (Inl e, lockDesc, tbl)
                | Inr (affectedRows, lockDesc', tbl') \<Rightarrow>
                    if affectedRows = 1 then (Inr True, lockDesc'\<lparr>isLocked := True\<rparr>, tbl')
                    else if instanceRole lockDesc' = WORKER \<and> affectedRows \<noteq> 1
                      then (Inr False, lockDesc', tbl')
                    else if errorChecker = Some False then (Inr False, lockDesc', tbl')
                    else (Inl LockBusyException, lockDesc', tbl'))))"

text \<open>The \<^verbatim>\<open>catch\<close> clauses shared by the other catalog operations: a broken
  connection is rethrown, any \<^verbatim>\<open>sql_error\<close> becomes a query execution failure,
  any other failure an unknown error.\<close>

definition catch_pqxx :: "pqxx_exception \<Rightarrow> Exception" where
  "catch_pqxx e =
     (case e of
        broken_connection \<Rightarrow> BrokenConnection
      | unique_violation w \<Rightarrow> SystemException SCIDB_LE_PG_QUERY_EXECUTION_FAILED
      | sql_error w \<Rightarrow> SystemException SCIDB_LE_PG_QUERY_EXECUTION_FAILED
      | failure \<Rightarrow> SystemException SCIDB_LE_UNKNOWN_ERROR)"

definition holds_key :: "LockDesc \<Rightarrow> lock_row \<Rightarrow> bool" where
  "holds_key lockDesc r \<longleftrightarrow>
     array_name r = arrayName lockDesc \<and> query_id r = queryId lockDesc
     \<and> instance_id r = instanceId lockDesc"

text \<open>\<^verbatim>\<open>SystemCatalog::_unlockArray\<close>\<close>

definition unlockArray_impl ::
  "store_env \<Rightarrow> lock_table \<Rightarrow> LockDesc \<Rightarrow> (Exception + bool) \<times> lock_table" where
  "unlockArray_impl env tbl lockDesc =
     (case env read_committed of
        Some e \<Rightarrow> (Inl (catch_pqxx e), tbl)
      | None \<Rightarrow>
          if \<not> (bigint (queryId lockDesc) \<and> bigint (instanceId lockDesc))
          then (Inl (catch_pqxx out_of_range), tbl)
          else
            (Inr (length (filter (holds_key lockDesc) tbl) = 1),
             filter (\<lambda>r. \<not> holds_key lockDesc r) tbl))"

text \<open>\<^verbatim>\<open>SystemCatalog::_updateArrayLock\<close>\<close>

definition updateArrayLock_impl ::
  "store_env \<Rightarrow> lock_table \<Rightarrow> LockDesc \<Rightarrow> (Exception + bool) \<times> lock_table" where
  "updateArrayLock_impl env tbl lockDesc =
     (case env read_committed of
        Some e \<Rightarrow> (Inl (catch_pqxx e), tbl)
      | None \<Rightarrow>
          if \<not> (bigint (queryId lockDesc) \<and> bigint (instanceId lockDesc)
                \<and> bigint (arrayId lockDesc) \<and> bigint (arrayVersionId lockDesc)
                \<and> bigint (arrayVersion lockDesc))
          then (Inl (catch_pqxx out_of_range), tbl)
          else
            (Inr (length (filter (holds_key lockDesc) tbl) = 1),
             map (\<lambda>r. if holds_key lockDesc r
                      then r\<lparr>array_id := arrayId lockDesc,
                             array_version_id := arrayVersionId lockDesc,
                             array_version := arrayVersion lockDesc,
                             lock_mode := modeInt (lockMode lockDesc)\<rparr>
                      else r) tbl))"

text \<open>\<^verbatim>\<open>SystemCatalog::_deleteArrayLocks\<close>. The constant \<^verbatim>\<open>INVALID_QUERY_ID\<close> is
  declared outside the sources and is a parameter here. The instance id is always bound,
  the query id only when its filter is enabled. The count of deleted rows is a
  \<^verbatim>\<open>size_t\<close> returned as \<^verbatim>\<open>uint32_t\<close>.\<close>

definition deleteFilter ::
  "QueryID \<Rightarrow> InstanceID \<Rightarrow> QueryID \<Rightarrow> InstanceRole \<Rightarrow> lock_row \<Rightarrow> bool" where
  "deleteFilter INVALID_QUERY_ID instId qId role r \<longleftrightarrow>
     (let isQuerySpecified = (qId \<noteq> INVALID_QUERY_ID \<and> qId \<noteq> 0);
          isRoleSpecified = (role \<noteq> INVALID_ROLE)
      in instance_id r = instId
         \<and> (if isQuerySpecified then query_id r = qId else True)
         \<and> (if isRoleSpecified then instance_role r = roleInt role else True))"

definition deleteArrayLocks_impl ::
  "QueryID \<Rightarrow> store_env \<Rightarrow> lock_table \<Rightarrow> InstanceID \<Rightarrow> QueryID \<Rightarrow> InstanceRole
     \<Rightarrow> (Exception + nat) \<times> lock_table" where
  "deleteArrayLocks_impl INVALID_QUERY_ID env tbl instId qId role =
     (case env read_committed of
        Some e \<Rightarrow> (Inl (catch_pqxx e), tbl)
      | None \<Rightarrow>
          if \<not> (bigint instId \<and> (qId \<noteq> INVALID_QUERY_ID \<and> qId \<noteq> 0 \<longrightarrow> bigint qId))
          then (Inl (catch_pqxx out_of_range), tbl)
          else
            (let numLocksDeleted = length (filter (deleteFilter INVALID_QUERY_ID instId qId role) tbl)
             in (Inr (numLocksDeleted mod 2 ^ 32),
                 filter (\<lambda>r. \<not> deleteFilter INVALID_QUERY_ID instId qId role r) tbl)))"

text \<open>The row a coordinator's INSERT selects for a lock descriptor.\<close>

definition coordRow :: "LockDesc \<Rightarrow> lock_row" where
  "coordRow lockDesc =
     \<lparr>array_name = arrayName lockDesc, array_id = arrayId lockDesc, query_id = queryId lockDesc,
      instance_id = instanceId lockDesc, array_version_id = arrayVersionId lockDesc,
      array_version = arrayVersion lockDesc, instance_role = roleInt (instanceRole lockDesc),
      lock_mode = modeInt (lockMode lockDesc)\<rparr>"

text \<open>The five ids a coordinator's INSERT binds are all accepted by the store.\<close>

definition bigintIds :: "LockDesc \<Rightarrow> bool" where
  "bigintIds lockDesc \<longleftrightarrow>
     bigint (arrayId lockDesc) \<and> bigint (queryId lockDesc) \<and> bigint (instanceId lockDesc)
     \<and> bigint (arrayVersionId lockDesc) \<and> bigint (arrayVersion lockDesc)"

subsection \<open>Restartable work\<close>

text \<open>
  Modelled from the spec: \<^verbatim>\<open>Query::runRestartableWork<T, E>\<close> (query/Query.h) is not
  among the sources. The spec: it executes the work at most \<open>maxTries\<close> times, retrying
  only when the failure belongs to the designated retryable category and re-raising at
  once otherwise; exhausting the tries surfaces a fatal connectivity error (connection
  loss policy) or a fatal conflict error (serialization conflict policy).

  A unit of work runs against a script of store environments, one for each transaction
  it opens; when the script is used up the store is healthy.
\<close>

datatype retry_policy = ConnectionLoss | SerializationConflict

fun retryable :: "retry_policy \<Rightarrow> Exception \<Rightarrow> bool" where
  "retryable ConnectionLoss e = (e = BrokenConnection)"
| "retryable SerializationConflict e = (e = TxnIsolationConflict)"

fun exhausted :: "retry_policy \<Rightarrow> Exception" where
  "exhausted ConnectionLoss = SystemException FATAL_CONNECTIVITY_ERROR"
| "exhausted SerializationConflict = SystemException FATAL_CONFLICT_ERROR"

type_synonym ('s, 'a) work = "store_env list \<Rightarrow> 's \<Rightarrow> ((Exception + 'a) \<times> 's) \<times> store_env list"

definition attempt :: "(store_env \<Rightarrow> 's \<Rightarrow> (Exception + 'a) \<times> 's) \<Rightarrow> ('s, 'a) work" where
  "attempt f script s =
     (case script of [] \<Rightarrow> (f healthy s, []) | env # rest \<Rightarrow> (f env s, rest))"

fun runRestartableWork :: "retry_policy \<Rightarrow> nat \<Rightarrow> ('s, 'a) work \<Rightarrow> ('s, 'a) work" where
  "runRestartableWork E 0 work script s = ((Inl (exhausted E), s), script)"
| "runRestartableWork E (Suc tries) work script s =
     (case work script s of
        ((Inr v, s'), script') \<Rightarrow> ((Inr v, s'), script')
      | ((Inl e, s'), script') \<Rightarrow>
          if retryable E e then runRestartableWork E tries work script' s'
          else ((Inl e, s'), script'))"

text \<open>\<^verbatim>\<open>_reconnectTries\<close> and \<^verbatim>\<open>_serializedTxnTries\<close> of the catalog object.\<close>

record Config =
  reconnectTries :: nat
  serializedTxnTries :: nat


definition unlockArray :: "Config \<Rightarrow> LockDesc \<Rightarrow> (lock_table, bool) work" where
  "unlockArray cfg lockDesc =
     runRestartableWork ConnectionLoss (reconnectTries cfg)
       (attempt (\<lambda>env tbl. unlockArray_impl env tbl lockDesc))"

definition updateArrayLock :: "Config \<Rightarrow> LockDesc \<Rightarrow> (lock_table, bool) work" where
  "updateArrayLock cfg lockDesc =
     runRestartableWork ConnectionLoss (reconnectTries cfg)
       (attempt (\<lambda>env tbl. updateArrayLock_impl env tbl lockDesc))"




subsection \<open>Runs of lock operations\<close>

text \<open>The operations that change the lock table, each with the store environment it
  meets, and the table after a sequence of them.\<close>

datatype lock_op =
    LockArray store_env LockDesc "bool option"
  | UnlockArray store_env LockDesc
  | UpdateArrayLock store_env LockDesc
  | DeleteArrayLocks QueryID store_env InstanceID QueryID InstanceRole

fun lock_step :: "lock_op \<Rightarrow> lock_table \<Rightarrow> lock_table" where
  "lock_step (LockArray env lockDesc errorChecker) tbl =
     snd (snd (lockArray_impl env tbl lockDesc errorChecker))"
| "lock_step (UnlockArray env lockDesc) tbl = snd (unlockArray_impl env tbl lockDesc)"
| "lock_step (UpdateArrayLock env lockDesc) tbl = snd (updateArrayLock_impl env tbl lockDesc)"
| "lock_step (DeleteArrayLocks INVALID_QUERY_ID env instId qId role) tbl =
     snd (deleteArrayLocks_impl INVALID_QUERY_ID env tbl instId qId role)"

text \<open>The exclusion property in the spec's words: for any array name, the rows in a
  mode above RD (WR, CRT, XCL, RM, RNF) all belong to one query.\<close>

definition lockMutualExclusion :: "lock_table \<Rightarrow> bool" where
  "lockMutualExclusion tbl \<longleftrightarrow>
     (\<forall>r1 \<in> set tbl. \<forall>r2 \<in> set tbl.
        array_name r1 = array_name r2 \<and> lock_mode r1 > modeInt RD \<and> lock_mode r2 > modeInt RD
        \<longrightarrow> query_id r1 = query_id r2)"

text \<open>An update of a lock is \<open>promoting\<close> when it gives a mode above RD to a row held in
  a mode that is not above RD. A run is free of promotions when no update in it is
  promoting on the table it meets.\<close>

fun promoting :: "lock_op \<Rightarrow> lock_table \<Rightarrow> bool" where
  "promoting (UpdateArrayLock env lockDesc) tbl =
     (modeInt (lockMode lockDesc) > modeInt RD
      \<and> (\<exists>r \<in> set tbl. holds_key lockDesc r \<and> \<not> lock_mode r > modeInt RD))"
| "promoting _ tbl = False"

fun promotion_free :: "lock_op list \<Rightarrow> lock_table \<Rightarrow> bool" where
  "promotion_free [] tbl = True"
| "promotion_free (x # xs) tbl = (\<not> promoting x tbl \<and> promotion_free xs (lock_step x tbl))"


definition conflicting :: store_env where
  "conflicting level = Some (sql_error ''ERROR:  could not serialize access due to concurrent update'')"


subsection \<open>Array descriptors and the array tables\<close>

record AttributeDesc =
  attrName :: string
  attrType :: string
  attrFlags :: int
  attrDefaultCompressionMethod :: int
  attrReserve :: int
  attrDefaultMissingReason :: int
  attrDefaultValueExpr :: string

record DimensionDesc =
  dimBaseName :: string
  dimStartMin :: int
  dimCurrStart :: int
  dimCurrEnd :: int
  dimEndMax :: int
  dimChunkInterval :: int
  dimChunkOverlap :: int

text \<open>The partitioning schema is \<open>None\<close> for \<^verbatim>\<open>psUndefined\<close>, otherwise the integer
  the schema is stored as.\<close>

record ArrayDesc =
  descId :: ArrayID
  descUAId :: ArrayID
  descVersionId :: VersionID
  descName :: string
  descPartitioningSchema :: "int option"
  descFlags :: int
  descAttributes :: "AttributeDesc list"
  descDimensions :: "DimensionDesc list"

record NamespaceDesc =
  nsName :: string
  nsId :: int

record PhysicalBoundaries =
  startCoords :: "int list"
  endCoords :: "int list"

text \<open>Rows of the tables \<^verbatim>\<open>array\<close>, \<^verbatim>\<open>array_attribute\<close> (the descriptor stands for the
  columns taken from it), \<^verbatim>\<open>array_dimension\<close> and \<^verbatim>\<open>array_version\<close>.\<close>

record array_row =
  arr_id :: nat
  arr_name :: string
  arr_partitioning_schema :: int
  arr_flags :: int

record attribute_row =
  attr_array_id :: nat
  attr_id :: nat
  attr_columns :: AttributeDesc

record dimension_row =
  dim_array_id :: nat
  dim_id :: nat
  dim_name :: string
  startMin :: int
  currStart :: int
  currEnd :: int
  endMax :: int
  chunk_interval :: int
  chunk_overlap :: int

record version_row =
  ver_array_id :: nat
  ver_version_array_id :: nat
  ver_version_id :: nat
  ver_time_stamp :: int

record catalog =
  tbl_array :: "array_row list"
  tbl_array_attribute :: "attribute_row list"
  tbl_array_dimension :: "dimension_row list"
  tbl_array_version :: "version_row list"

text \<open>Functions of other modules that the catalog calls and whose code is not among
  the sources; they are parameters of the model: the two name functions of
  \<^verbatim>\<open>ArrayDesc\<close>, the answer of the namespace plugin to \<^verbatim>\<open>findNamespaceTr\<close>, and
  \<^verbatim>\<open>PhysicalBoundaries::trimToDims\<close>.\<close>

record externals =
  isNameUnversioned :: "string \<Rightarrow> bool"
  getVersionFromName :: "string \<Rightarrow> VersionID"
  findNamespaceTr :: "NamespaceDesc \<Rightarrow> bool"
  trimToDims :: "PhysicalBoundaries \<Rightarrow> DimensionDesc list \<Rightarrow> PhysicalBoundaries"

text \<open>\<^verbatim>\<open>SystemCatalog::_addArray(namespaceDesc, array_desc, tr)\<close>: the checks, then the
  three INSERTs, then the namespace lookup. The first INSERT binds the array id.\<close>

definition addArray_tr :: "externals \<Rightarrow> NamespaceDesc \<Rightarrow> ArrayDesc \<Rightarrow> catalog \<Rightarrow> thrown + catalog" where
  "addArray_tr ext namespaceDesc array_desc cat =
     (let arrId = descId array_desc; arrayName = descName array_desc;
          uaid = descUAId array_desc; vid = descVersionId array_desc;
          attributes = descAttributes array_desc; dims = descDimensions array_desc
      in case descPartitioningSchema array_desc of
           None \<Rightarrow> Inl (Sci (SystemException ASSERT_EXCEPTION_FAILED))
         | Some ps \<Rightarrow>
             if \<not> arrId > 0 then Inl (Sci (SystemException ASSERT_EXCEPTION_FAILED))
             else if \<not> ((isNameUnversioned ext arrayName \<and> uaid = arrId)
                        \<or> (vid = getVersionFromName ext arrayName \<and> uaid > 0 \<and> uaid < arrId))
               then Inl (Sci (SystemException ASSERT_EXCEPTION_FAILED))
             else if \<exists>a \<in> set attributes. \<exists>d \<in> set dims. attrName a = dimBaseName d
               then Inl (Sci (UserException SCIDB_LE_DUPLICATE_ATTRIBUTE_NAME))
             else if \<not> bigint arrId then Inl (Pq out_of_range)
             else
               (let cat' = cat
                     \<lparr>tbl_array := tbl_array cat @
                        [\<lparr>arr_id = arrId, arr_name = arrayName, arr_partitioning_schema = ps,
                          arr_flags = descFlags array_desc\<rparr>],
                      tbl_array_attribute := tbl_array_attribute cat @
                        map (\<lambda>(i, attr). \<lparr>attr_array_id = arrId, attr_id = i, attr_columns = attr\<rparr>)
                          (enumerate 0 attributes),
                      tbl_array_dimension := tbl_array_dimension cat @
                        map (\<lambda>(i, dim). \<lparr>dim_array_id = arrId, dim_id = i, dim_name = dimBaseName dim,
                                          startMin = dimStartMin dim, currStart = dimCurrStart dim,
                                          currEnd = dimCurrEnd dim, endMax = dimEndMax dim,
                                          chunk_interval = dimChunkInterval dim,
                                          chunk_overlap = dimChunkOverlap dim\<rparr>)
                          (enumerate 0 dims)\<rparr>
                in if nsId namespaceDesc = - 1 \<and> \<not> findNamespaceTr ext namespaceDesc
                      \<and> nsName namespaceDesc \<noteq> ''public''
                   then Inl (Sci (SystemException SCIDB_LE_PLUGIN_FUNCTION_ACCESS))
                   else Inr cat'))"

subsection \<open>The version catalog\<close>

text \<open>\<^verbatim>\<open>select COALESCE(max(version_id),0) from array_version where ...\<close> over the rows
  that pass the \<^verbatim>\<open>where\<close> clause.\<close>

definition coalesce_max_version_id :: "version_row list \<Rightarrow> nat" where
  "coalesce_max_version_id rows = foldr max (map ver_version_id rows) 0"

text \<open>\<^verbatim>\<open>SystemCatalog::_createNewVersion\<close>. \<^verbatim>\<open>version_id\<close> is a \<^verbatim>\<open>uint64_t\<close>, so
  the increment is modulo \<open>2^64\<close>; it is bound to a \<^verbatim>\<open>bigint\<close> parameter, and the store
  refuses a value that is not below \<open>2^63\<close>. The two array ids are the ones that
  \<^verbatim>\<open>_addArray\<close>, called just before at the only call site, has inserted for the same
  descriptor. The time stamp is \<^verbatim>\<open>time(NULL)\<close>, an input here.\<close>

definition createNewVersion_tr ::
  "ArrayID \<Rightarrow> ArrayID \<Rightarrow> int \<Rightarrow> catalog \<Rightarrow> thrown + VersionID \<times> catalog" where
  "createNewVersion_tr array_id' version_array_id' timestamp cat =
     (let vid = coalesce_max_version_id
                  (filter (\<lambda>r. ver_array_id r = array_id') (tbl_array_version cat));
          version_id = (vid + 1) mod 2 ^ 64
      in if \<not> version_id < 2 ^ 63
         then Inl (Pq (sql_error ''ERROR:  value out of range for type bigint''))
         else Inr (version_id,
                   cat\<lparr>tbl_array_version := tbl_array_version cat @
                         [\<lparr>ver_array_id = array_id', ver_version_array_id = version_array_id',
                           ver_version_id = version_id, ver_time_stamp = timestamp\<rparr>]\<rparr>))"

text \<open>\<^verbatim>\<open>SystemCatalog::throwOnSerializationConflict\<close>: the exception it throws, if any.\<close>

definition throwOnSerializationConflict :: "string \<Rightarrow> Exception option" where
  "throwOnSerializationConflict what =
     (let SERIALIZATION_CONFLICT = ''ERROR:  could not serialize access'';
          scSize = length SERIALIZATION_CONFLICT
      in if take scSize what = SERIALIZATION_CONFLICT then Some TxnIsolationConflict else None)"

text \<open>The \<^verbatim>\<open>catch\<close> clauses of the operations that run a serializable transaction.\<close>

definition catch_serializable :: "pqxx_exception \<Rightarrow> Exception" where
  "catch_serializable e =
     (case e of
        broken_connection \<Rightarrow> BrokenConnection
      | unique_violation w \<Rightarrow>
          (case throwOnSerializationConflict w of
             Some c \<Rightarrow> c | None \<Rightarrow> SystemException SCIDB_LE_PG_QUERY_EXECUTION_FAILED)
      | sql_error w \<Rightarrow>
          (case throwOnSerializationConflict w of
             Some c \<Rightarrow> c | None \<Rightarrow> SystemException SCIDB_LE_PG_QUERY_EXECUTION_FAILED)
      | failure \<Rightarrow> SystemException SCIDB_LE_UNKNOWN_ERROR)"

text \<open>The body of the transaction of \<^verbatim>\<open>_addArrayVersion\<close>, up to \<^verbatim>\<open>tr.commit()\<close>.\<close>

definition addArrayVersion_txn ::
  "externals \<Rightarrow> int \<Rightarrow> NamespaceDesc \<Rightarrow> ArrayDesc option \<Rightarrow> ArrayDesc \<Rightarrow> catalog
     \<Rightarrow> thrown + VersionID \<times> catalog" where
  "addArrayVersion_txn ext timestamp namespaceDesc unversionedDesc versionedDesc cat =
     (case (case unversionedDesc of
              None \<Rightarrow> Inr cat
            | Some u \<Rightarrow> addArray_tr ext namespaceDesc u cat) of
        Inl e \<Rightarrow> Inl e
      | Inr cat1 \<Rightarrow>
          (case addArray_tr ext namespaceDesc versionedDesc cat1 of
             Inl e \<Rightarrow> Inl e
           | Inr cat2 \<Rightarrow>
               createNewVersion_tr (descUAId versionedDesc) (descId versionedDesc) timestamp cat2))"

text \<open>\<^verbatim>\<open>SystemCatalog::_addArrayVersion\<close>: one serializable transaction; it is committed
  only when the body ends without an exception, otherwise the catalog is as before.\<close>

definition addArrayVersion_impl ::
  "externals \<Rightarrow> int \<Rightarrow> NamespaceDesc \<Rightarrow> ArrayDesc option \<Rightarrow> ArrayDesc
     \<Rightarrow> store_env \<Rightarrow> catalog \<Rightarrow> (Exception + unit) \<times> catalog" where
  "addArrayVersion_impl ext timestamp namespaceDesc unversionedDesc versionedDesc env cat =
     (case env serializable of
        Some e \<Rightarrow> (Inl (catch_serializable e), cat)
      | None \<Rightarrow>
          (case addArrayVersion_txn ext timestamp namespaceDesc unversionedDesc versionedDesc cat of
             Inl (Pq e) \<Rightarrow> (Inl (catch_serializable e), cat)
           | Inl (Sci e) \<Rightarrow> (Inl e, cat)
           | Inr (v, cat') \<Rightarrow> (Inr (), cat')))"

text \<open>\<^verbatim>\<open>SystemCatalog::addArrayVersion\<close>: the serialization-conflict policy inside the
  connection-loss policy.\<close>

definition addArrayVersion ::
  "externals \<Rightarrow> Config \<Rightarrow> int \<Rightarrow> NamespaceDesc \<Rightarrow> ArrayDesc option \<Rightarrow> ArrayDesc
     \<Rightarrow> (catalog, unit) work" where
  "addArrayVersion ext cfg timestamp namespaceDesc unversionedDesc versionedDesc =
     runRestartableWork ConnectionLoss (reconnectTries cfg)
       (runRestartableWork SerializationConflict (serializedTxnTries cfg)
          (attempt (addArrayVersion_impl ext timestamp namespaceDesc unversionedDesc versionedDesc)))"

text \<open>\<^verbatim>\<open>SystemCatalog::_getLastVersion\<close> and \<^verbatim>\<open>getLastVersion\<close>.\<close>

definition getLastVersion_impl ::
  "ArrayID \<Rightarrow> ArrayID \<Rightarrow> store_env \<Rightarrow> catalog \<Rightarrow> (Exception + VersionID) \<times> catalog" where
  "getLastVersion_impl array_id' catalogVersion env cat =
     (case env read_committed of
        Some e \<Rightarrow> (Inl (catch_pqxx e), cat)
      | None \<Rightarrow>
          if \<not> (bigint array_id' \<and> bigint catalogVersion)
          then (Inl (catch_pqxx out_of_range), cat)
          else
          (Inr (coalesce_max_version_id
                  (filter (\<lambda>r. ver_array_id r = array_id' \<and> ver_version_array_id r \<le> catalogVersion)
                     (tbl_array_version cat))), cat))"


subsection \<open>Array boundaries\<close>

text \<open>\<^verbatim>\<open>update array_dimension set currStart=$1 where array_id=$2 and id=$3 and currStart>$1\<close>
  and its counterpart for \<^verbatim>\<open>currEnd\<close>.\<close>

definition update_low_boundary :: "int \<Rightarrow> nat \<Rightarrow> nat \<Rightarrow> dimension_row list \<Rightarrow> dimension_row list" where
  "update_low_boundary p1 p2 p3 tbl =
     map (\<lambda>r. if dim_array_id r = p2 \<and> dim_id r = p3 \<and> currStart r > p1
              then r\<lparr>currStart := p1\<rparr> else r) tbl"

definition update_high_boundary :: "int \<Rightarrow> nat \<Rightarrow> nat \<Rightarrow> dimension_row list \<Rightarrow> dimension_row list" where
  "update_high_boundary p1 p2 p3 tbl =
     map (\<lambda>r. if dim_array_id r = p2 \<and> dim_id r = p3 \<and> currEnd r < p1
              then r\<lparr>currEnd := p1\<rparr> else r) tbl"

text \<open>\<^verbatim>\<open>SystemCatalog::_updateArrayBoundaries\<close>. The loop runs over the indices of
  \<^verbatim>\<open>low\<close> and reads \<^verbatim>\<open>high\<close> at the same index; the two coordinate vectors of a
  \<^verbatim>\<open>PhysicalBoundaries\<close> have the same length. Every statement of the loop binds the
  array id, so an id the store refuses fails the first of them, if there is one; the
  coordinates are \<^verbatim>\<open>int64_t\<close>.\<close>

definition updateArrayBoundaries_impl ::
  "externals \<Rightarrow> ArrayDesc \<Rightarrow> PhysicalBoundaries \<Rightarrow> store_env \<Rightarrow> catalog
     \<Rightarrow> (Exception + unit) \<times> catalog" where
  "updateArrayBoundaries_impl ext desc bounds env cat =
     (let trimmed = trimToDims ext bounds (descDimensions desc);
          low = startCoords trimmed; high = endCoords trimmed;
          array_id' = descId desc
      in case env read_committed of
           Some e \<Rightarrow> (Inl (catch_pqxx e), cat)
         | None \<Rightarrow>
             if low \<noteq> [] \<and> \<not> bigint array_id'
             then (Inl (catch_pqxx out_of_range), cat)
             else
             (Inr (),
              cat\<lparr>tbl_array_dimension :=
                    fold (\<lambda>i tbl. update_high_boundary (high ! i) array_id' i
                                    (update_low_boundary (low ! i) array_id' i tbl))
                      [0..<length low] (tbl_array_dimension cat)\<rparr>))"

definition updateArrayBoundaries ::
  "externals \<Rightarrow> Config \<Rightarrow> ArrayDesc \<Rightarrow> PhysicalBoundaries \<Rightarrow> (catalog, unit) work" where
  "updateArrayBoundaries ext cfg desc bounds =
     runRestartableWork ConnectionLoss (reconnectTries cfg)
       (attempt (updateArrayBoundaries_impl ext desc bounds))"

section \<open>Properties\<close>

subsection \<open>The range of the ids\<close>

text \<open>The range test by integer comparison, which evaluates in binary.\<close>

lemma bigint_int [code]: "bigint v \<longleftrightarrow> int v < 9223372036854775808"
  unfolding bigint_def by linarith

lemma catch_out_of_range:
  "catch_pqxx out_of_range = SystemException SCIDB_LE_PG_QUERY_EXECUTION_FAILED"
  by (simp add: catch_pqxx_def out_of_range_def)

text \<open>The refusal is not a serialization conflict: the operations that retry those
  report it as a failed query.\<close>

lemma catch_serializable_out_of_range:
  "catch_serializable out_of_range = SystemException SCIDB_LE_PG_QUERY_EXECUTION_FAILED"
  by (simp add: catch_serializable_def out_of_range_def throwOnSerializationConflict_def)

lemma bigint_MAX_ARRAYID: "bigint v \<longleftrightarrow> v \<le> MAX_ARRAYID"
  unfolding bigint_def MAX_ARRAYID_def by linarith

lemma bigint_ANY_VERSION: "bigint ANY_VERSION \<and> ANY_VERSION = MAX_ARRAYID"
  by (simp add: bigint_def ANY_VERSION_def MAX_ARRAYID_def)

subsection \<open>The INSERT statements on the parameters the source binds\<close>

lemma select_row_coordParams: "select_row (coordParams ld @ ps) = Some (coordRow ld)"
  by (simp add: select_row_def coordParams_def coordRow_def)

lemma drop_coordParams: "drop 8 (coordParams ld @ ps) = ps"
  by (simp add: coordParams_def)

lemma insert_rows_single:
  "insert_rows [r] tbl =
     (if lock_key r \<in> set (map lock_key tbl)
      then Inl (unique_violation ''duplicate key value violates unique constraint'')
      else Inr (1, tbl @ [r]))"
  by (simp add: insert_rows_def)

lemma key_coordRow:
  "lock_key (coordRow ld) \<in> set (map lock_key tbl) \<longleftrightarrow> (\<exists>r \<in> set tbl. holds_key ld r)"
  by (force simp: lock_key_def coordRow_def holds_key_def image_iff)

lemma insert_coordRow:
  "insert_rows [coordRow ld] tbl =
     (if \<exists>r \<in> set tbl. holds_key ld r
      then Inl (unique_violation ''duplicate key value violates unique constraint'')
      else Inr (1, tbl @ [coordRow ld]))"
  unfolding insert_rows_single key_coordRow ..

lemma bindable_coordParams:
  "list_all bindable (coordParams ld @ ps) \<longleftrightarrow> bigintIds ld \<and> list_all bindable ps"
  by (auto simp add: coordParams_def bigintIds_def)

lemma rows_CoordRdSql:
  "lockInsertRows CoordRdSql (coordParams ld @ [PInt p9, PInt p10]) tbl =
     (if \<exists>avl \<in> set tbl. array_name avl = arrayName ld \<and> lock_mode avl > p9
                          \<and> instance_role avl = p10
      then Inr (0, tbl) else insert_rows [coordRow ld] tbl)"
  unfolding lockInsertRows_def select_row_coordParams drop_coordParams
  by (auto simp: coordRow_def)

lemma rows_CoordWrSql:
  "lockInsertRows CoordWrSql (coordParams ld @ [PInt p9]) tbl =
     (if \<exists>avl \<in> set tbl. array_name avl = arrayName ld \<and> query_id avl \<noteq> queryId ld
                          \<and> lock_mode avl > p9
      then Inr (0, tbl) else insert_rows [coordRow ld] tbl)"
  unfolding lockInsertRows_def select_row_coordParams drop_coordParams
  by (auto simp: coordRow_def)

lemma rows_CoordExclSql:
  "lockInsertRows CoordExclSql (coordParams ld) tbl =
     (if \<exists>avl \<in> set tbl. array_name avl = arrayName ld \<and> query_id avl \<noteq> queryId ld
      then Inr (0, tbl) else insert_rows [coordRow ld] tbl)"
  using select_row_coordParams[of ld "[]"] drop_coordParams[of ld "[]"]
  unfolding lockInsertRows_def by (auto simp: coordRow_def)

lemma exec_CoordRdSql:
  "execLockInsert CoordRdSql (coordParams ld @ [PInt p9, PInt p10]) tbl =
     (if \<not> bigintIds ld then Inl out_of_range
      else if \<exists>avl \<in> set tbl. array_name avl = arrayName ld \<and> lock_mode avl > p9
                          \<and> instance_role avl = p10
      then Inr (0, tbl) else insert_rows [coordRow ld] tbl)"
  unfolding execLockInsert_def bindable_coordParams rows_CoordRdSql by simp

lemma exec_CoordWrSql:
  "execLockInsert CoordWrSql (coordParams ld @ [PInt p9]) tbl =
     (if \<not> bigintIds ld then Inl out_of_range
      else if \<exists>avl \<in> set tbl. array_name avl = arrayName ld \<and> query_id avl \<noteq> queryId ld
                          \<and> lock_mode avl > p9
      then Inr (0, tbl) else insert_rows [coordRow ld] tbl)"
  unfolding execLockInsert_def bindable_coordParams rows_CoordWrSql by simp

lemma exec_CoordExclSql:
  "execLockInsert CoordExclSql (coordParams ld) tbl =
     (if \<not> bigintIds ld then Inl out_of_range
      else if \<exists>avl \<in> set tbl. array_name avl = arrayName ld \<and> query_id avl \<noteq> queryId ld
      then Inr (0, tbl) else insert_rows [coordRow ld] tbl)"
  using bindable_coordParams[of ld "[]"]
  unfolding execLockInsert_def rows_CoordExclSql by simp

lemma lockArray_txn_CoordRd:
  assumes "instanceRole ld = COORD" "lockMode ld = RD"
  shows "lockArray_txn CoordRdSql ld tbl =
     (if \<not> bigintIds ld then Inl (Pq out_of_range)
      else if \<exists>avl \<in> set tbl. array_name avl = arrayName ld \<and> lock_mode avl > modeInt CRT
                          \<and> instance_role avl = roleInt COORD
      then Inr (0, ld, tbl)
      else if \<exists>r \<in> set tbl. holds_key ld r
        then Inl (Pq (unique_violation ''duplicate key value violates unique constraint''))
      else Inr (1, ld, tbl @ [coordRow ld]))"
  using assms unfolding lockArray_txn_def
  by (auto simp add: exec_CoordRdSql insert_coordRow noRead_def)

lemma exec_WorkerWrSql:
  "execLockInsert WorkerWrSql [PStr p1, PBig p2, PBig p3, PInt p4, PInt p5, PInt p6] tbl =
     (if \<not> (bigint p2 \<and> bigint p3) then Inl out_of_range
      else insert_rows
       (map (copy_row p3 p4)
          (filter (\<lambda>avl. array_name avl = p1 \<and> query_id avl = p2 \<and> instance_role avl = 1
                          \<and> (lock_mode avl = p5 \<or> lock_mode avl = p6)) tbl)) tbl)"
  by (simp add: execLockInsert_def lockInsertRows_def)

lemma exec_WorkerXclSql:
  "execLockInsert WorkerXclSql [PStr p1, PBig p2, PBig p3, PInt p4, PInt p5] tbl =
     (if \<not> (bigint p2 \<and> bigint p3) then Inl out_of_range
      else insert_rows
       (map (copy_row p3 p4)
          (filter (\<lambda>avl. array_name avl = p1 \<and> query_id avl = p2 \<and> instance_role avl = 1
                          \<and> lock_mode avl = p5
                          \<and> \<not> (\<exists>avl2 \<in> set tbl. array_name avl2 = p1 \<and> query_id avl2 = p2
                                   \<and> instance_id avl2 = p3)) tbl)) tbl)"
  by (simp add: execLockInsert_def lockInsertRows_def)

lemma lockArray_txn_CoordWr:
  assumes "instanceRole ld = COORD" "lockMode ld = WR \<or> lockMode ld = CRT"
  shows "lockArray_txn CoordWrSql ld tbl =
     (if \<not> bigintIds ld then Inl (Pq out_of_range)
      else if \<exists>avl \<in> set tbl. array_name avl = arrayName ld \<and> query_id avl \<noteq> queryId ld
                          \<and> lock_mode avl > modeInt RD
      then Inr (0, ld, tbl)
      else if \<exists>r \<in> set tbl. holds_key ld r
        then Inl (Pq (unique_violation ''duplicate key value violates unique constraint''))
      else Inr (1, ld, tbl @ [coordRow ld]))"
  using assms unfolding lockArray_txn_def
  by (auto simp add: exec_CoordWrSql insert_coordRow noRead_def)

lemma lockArray_txn_CoordExcl:
  assumes "instanceRole ld = COORD" "lockMode ld = XCL \<or> lockMode ld = RM \<or> lockMode ld = RNF"
  shows "lockArray_txn CoordExclSql ld tbl =
     (if \<not> bigintIds ld then Inl (Pq out_of_range)
      else if \<exists>avl \<in> set tbl. array_name avl = arrayName ld \<and> query_id avl \<noteq> queryId ld
      then Inr (0, ld, tbl)
      else if \<exists>r \<in> set tbl. holds_key ld r
        then Inl (Pq (unique_violation ''duplicate key value violates unique constraint''))
      else Inr (1, ld, tbl @ [coordRow ld]))"
  using assms unfolding lockArray_txn_def
  by (auto simp add: exec_CoordExclSql insert_coordRow noRead_def)

subsection \<open>The coordinator's read lock\<close>

text \<open>
  C5, as the code has it. A coordinator's RD request is granted exactly when the ids of
  the descriptor are in the range of the store's \<^verbatim>\<open>bigint\<close>, no row for the array held by a
  coordinator has a lock mode above CRT (not above RD: rows in mode WR or CRT do not
  block a reader), and the key (array name, query, instance) is new or the descriptor
  already records itself as locked; the INSERT adds the row exactly when the ids are in
  range, no such row blocks it and the key is new. With an id out of range the request
  fails as a failed query, whatever the table holds. A worker's RD request is rejected
  as an invalid argument.
\<close>

theorem coord_RD_predicate:
  assumes "instanceRole ld = COORD" and "lockMode ld = RD"
  shows "(fst (lockArray_impl healthy tbl ld ec) = Inr True \<longleftrightarrow>
            bigintIds ld
            \<and> \<not> (\<exists>avl \<in> set tbl. array_name avl = arrayName ld \<and> lock_mode avl > modeInt CRT
                                 \<and> instance_role avl = roleInt COORD)
            \<and> ((\<exists>r \<in> set tbl. holds_key ld r) \<longrightarrow> isLocked ld))
       \<and> snd (snd (lockArray_impl healthy tbl ld ec)) =
           (if bigintIds ld
               \<and> \<not> (\<exists>avl \<in> set tbl. array_name avl = arrayName ld \<and> lock_mode avl > modeInt CRT
                                 \<and> instance_role avl = roleInt COORD)
               \<and> \<not> (\<exists>r \<in> set tbl. holds_key ld r)
            then tbl @ [coordRow ld] else tbl)
       \<and> (\<not> bigintIds ld \<longrightarrow>
            lockArray_impl healthy tbl ld ec =
              (Inl (SystemException SCIDB_LE_PG_QUERY_EXECUTION_FAILED), ld, tbl))
       \<and> fst (lockArray_impl env tbl (ld\<lparr>instanceRole := WORKER\<rparr>) ec) =
           Inl (SystemException SCIDB_LE_INVALID_FUNCTION_ARGUMENT)"
  using assms
  by (auto simp add: lockArray_impl_def lockArray_txn_CoordRd healthy_def
       lockArray_catch_def getLockInsertSql_def out_of_range_def)

theorem coord_RD_predicate_witness:
  "instanceRole (newLockDesc ''A'' 2 20 COORD RD) = COORD
   \<and> lockMode (newLockDesc ''A'' 2 20 COORD RD) = RD
   \<and> bigintIds (newLockDesc ''A'' 2 20 COORD RD)
   \<and> fst (lockArray_impl healthy [coordRow (newLockDesc ''A'' 1 10 COORD XCL)]
            (newLockDesc ''A'' 2 20 COORD RD) None) \<noteq> Inr True
   \<and> fst (lockArray_impl healthy [coordRow (newLockDesc ''A'' 1 10 COORD CRT)]
            (newLockDesc ''A'' 2 20 COORD RD) None) = Inr True
   \<and> \<not> bigintIds (newLockDesc ''A'' 9223372036854775808 20 COORD RD)
   \<and> lockArray_impl healthy [] (newLockDesc ''A'' 9223372036854775808 20 COORD RD) None =
       (Inl (SystemException SCIDB_LE_PG_QUERY_EXECUTION_FAILED),
        newLockDesc ''A'' 9223372036854775808 20 COORD RD, [])"
  using coord_RD_predicate [of "newLockDesc ''A'' 2 20 COORD RD"
          "[coordRow (newLockDesc ''A'' 1 10 COORD XCL)]" None healthy]
        coord_RD_predicate [of "newLockDesc ''A'' 2 20 COORD RD"
          "[coordRow (newLockDesc ''A'' 1 10 COORD CRT)]" None healthy]
        coord_RD_predicate [of "newLockDesc ''A'' 9223372036854775808 20 COORD RD"
          "[]" None healthy]
  by (simp add: newLockDesc_def coordRow_def holds_key_def bigintIds_def bigint_def)

text \<open>C5 as stated fails: a coordinator of another query holds the array in mode WR,
  which is above RD, and the coordinator's RD request is granted all the same.\<close>

theorem coord_RD_counterexample:
  "array_name (coordRow (newLockDesc ''A'' 1 10 COORD WR)) = ''A''
   \<and> modeInt RD < lock_mode (coordRow (newLockDesc ''A'' 1 10 COORD WR))
   \<and> instance_role (coordRow (newLockDesc ''A'' 1 10 COORD WR)) = roleInt COORD
   \<and> lockArray_impl healthy [coordRow (newLockDesc ''A'' 1 10 COORD WR)]
        (newLockDesc ''A'' 2 20 COORD RD) None =
       (Inr True, (newLockDesc ''A'' 2 20 COORD RD)\<lparr>isLocked := True\<rparr>,
        [coordRow (newLockDesc ''A'' 1 10 COORD WR), coordRow (newLockDesc ''A'' 2 20 COORD RD)])"
  by (simp add: lockArray_impl_def lockArray_txn_CoordRd healthy_def getLockInsertSql_def
        newLockDesc_def coordRow_def holds_key_def bigintIds_def bigint_def)

subsection \<open>Uniqueness violations\<close>

text \<open>
  C3. When the acquisition meets a uniqueness violation of the store (raised by the
  environment or by the INSERT itself), then: a coordinator whose descriptor records
  itself as locked gets \<open>true\<close>; a descriptor that does not record itself as locked gets
  a fatal error; a worker whose descriptor records itself as locked gets an error, never
  the grant. Table and descriptor stay as they were.
\<close>

theorem lockArray_unique_violation:
  assumes "getLockInsertSql ld = Inr sql"
    and "env read_committed = Some (unique_violation w)
         \<or> (env read_committed = None \<and> lockArray_txn sql ld tbl = Inl (Pq (unique_violation w)))"
  shows "(isLocked ld \<and> instanceRole ld = COORD \<longrightarrow>
            lockArray_impl env tbl ld ec = (Inr True, ld, tbl))
       \<and> (\<not> isLocked ld \<longrightarrow>
            lockArray_impl env tbl ld ec = (Inl (SystemException SCIDB_LE_UNKNOWN_ERROR), ld, tbl))
       \<and> (isLocked ld \<and> instanceRole ld = WORKER \<longrightarrow>
            lockArray_impl env tbl ld ec = (Inl (SystemException ASSERT_EXCEPTION_FAILED), ld, tbl))"
  using assms by (auto simp add: lockArray_impl_def lockArray_catch_def)

theorem lockArray_unique_violation_witness:
  "lockArray_impl healthy [coordRow (newLockDesc ''A'' 1 10 COORD WR)]
      ((newLockDesc ''A'' 1 10 COORD WR)\<lparr>isLocked := True\<rparr>) None =
     (Inr True, (newLockDesc ''A'' 1 10 COORD WR)\<lparr>isLocked := True\<rparr>,
      [coordRow (newLockDesc ''A'' 1 10 COORD WR)])
   \<and> lockArray_impl healthy [coordRow (newLockDesc ''A'' 1 10 COORD WR)]
      (newLockDesc ''A'' 1 10 COORD WR) None =
     (Inl (SystemException SCIDB_LE_UNKNOWN_ERROR), newLockDesc ''A'' 1 10 COORD WR,
      [coordRow (newLockDesc ''A'' 1 10 COORD WR)])
   \<and> lockArray_impl healthy
        [coordRow (newLockDesc ''A'' 1 10 COORD WR), coordRow (newLockDesc ''A'' 1 11 WORKER WR)]
      ((newLockDesc ''A'' 1 11 WORKER WR)\<lparr>isLocked := True\<rparr>) None =
     (Inl (SystemException ASSERT_EXCEPTION_FAILED), (newLockDesc ''A'' 1 11 WORKER WR)\<lparr>isLocked := True\<rparr>,
      [coordRow (newLockDesc ''A'' 1 10 COORD WR), coordRow (newLockDesc ''A'' 1 11 WORKER WR)])"
proof -
  let ?w = "''duplicate key value violates unique constraint''"
  let ?c = "newLockDesc ''A'' 1 10 COORD WR"
  let ?k = "newLockDesc ''A'' 1 11 WORKER WR"
  have sqlc: "getLockInsertSql (?c\<lparr>isLocked := True\<rparr>) = Inr CoordWrSql"
    "getLockInsertSql ?c = Inr CoordWrSql"
    by (simp_all add: getLockInsertSql_def newLockDesc_def)
  have sqlk: "getLockInsertSql (?k\<lparr>isLocked := True\<rparr>) = Inr WorkerWrSql"
    by (simp add: getLockInsertSql_def newLockDesc_def)
  have v1: "lockArray_txn CoordWrSql (?c\<lparr>isLocked := True\<rparr>) [coordRow ?c] = Inl (Pq (unique_violation ?w))"
    by (simp add: lockArray_txn_CoordWr newLockDesc_def coordRow_def holds_key_def
          bigintIds_def bigint_def)
  have v2: "lockArray_txn CoordWrSql ?c [coordRow ?c] = Inl (Pq (unique_violation ?w))"
    by (simp add: lockArray_txn_CoordWr newLockDesc_def coordRow_def holds_key_def
          bigintIds_def bigint_def)
  have v3: "lockArray_txn WorkerWrSql (?k\<lparr>isLocked := True\<rparr>) [coordRow ?c, coordRow ?k]
              = Inl (Pq (unique_violation ?w))"
    by (simp add: lockArray_txn_def newLockDesc_def exec_WorkerWrSql
          insert_rows_def coordRow_def lock_key_def copy_row_def bigint_def)
  show ?thesis
    using lockArray_unique_violation [OF sqlc(1), of healthy ?w "[coordRow ?c]" None]
      lockArray_unique_violation [OF sqlc(2), of healthy ?w "[coordRow ?c]" None]
      lockArray_unique_violation [OF sqlk, of healthy ?w "[coordRow ?c, coordRow ?k]" None]
      v1 v2 v3
    by (simp add: healthy_def newLockDesc_def)
qed

subsection \<open>A worker's RNF request\<close>

text \<open>
  C4 against the code: \<^verbatim>\<open>getLockInsertSql\<close> has no statement for a worker in mode
  RNF (its last group accepts a worker only in mode XCL), so \<^verbatim>\<open>_lockArray\<close> throws
  the invalid-argument exception before it reaches its own WORKER-RNF branch; no row is
  copied, whatever the table holds.
\<close>

theorem worker_RNF_rejected:
  "lockArray_impl env tbl (ld\<lparr>instanceRole := WORKER, lockMode := RNF\<rparr>) ec =
     (Inl (SystemException SCIDB_LE_INVALID_FUNCTION_ARGUMENT),
      ld\<lparr>instanceRole := WORKER, lockMode := RNF\<rparr>, tbl)"
  by (simp add: lockArray_impl_def getLockInsertSql_def)

subsection \<open>A worker's XCL request\<close>


lemma insert_rows_Inr:
  "insert_rows new tbl = Inr (n, tbl') \<Longrightarrow>
     n = length new \<and> tbl' = tbl @ new \<and> distinct (map lock_key new)
     \<and> (\<forall>r \<in> set new. lock_key r \<notin> set (map lock_key tbl))"
  by (auto simp: insert_rows_def split: if_splits)





text \<open>A worker in mode WR that has inserted its row reads it back: the branch of the
  model for an empty result of the read is never taken.\<close>

lemma worker_WR_reads_back:
  assumes "instanceRole ld = WORKER" and "lockMode ld = WR"
  shows "lockArray_txn WorkerWrSql ld tbl \<noteq> Inl (Pq failure)"
proof
  assume f: "lockArray_txn WorkerWrSql ld tbl = Inl (Pq failure)"
  define cands where "cands = filter (\<lambda>avl. array_name avl = arrayName ld \<and> query_id avl = queryId ld
        \<and> instance_role avl = 1 \<and> (lock_mode avl = modeInt WR \<or> lock_mode avl = modeInt CRT)) tbl"
  define new where "new = map (copy_row (instanceId ld) (roleInt WORKER)) cands"
  have ex: "execLockInsert WorkerWrSql
        [PStr (arrayName ld), PBig (queryId ld), PBig (instanceId ld),
         PInt (roleInt WORKER), PInt (modeInt WR), PInt (modeInt CRT)] tbl =
      (if \<not> (bigint (queryId ld) \<and> bigint (instanceId ld)) then Inl out_of_range
       else insert_rows new tbl)"
    unfolding exec_WorkerWrSql new_def cands_def ..
  show False
  proof (cases "bigint (queryId ld) \<and> bigint (instanceId ld)")
    case False
    with f assms show False
      unfolding lockArray_txn_def ex by (simp add: out_of_range_def)
  next
    case range: True
    have ex: "execLockInsert WorkerWrSql
        [PStr (arrayName ld), PBig (queryId ld), PBig (instanceId ld),
         PInt (roleInt WORKER), PInt (modeInt WR), PInt (modeInt CRT)] tbl = insert_rows new tbl"
      using range unfolding ex by simp
    show False
  proof (cases "insert_rows new tbl")
    case (Inl e)
    then have "e \<noteq> failure" by (auto simp: insert_rows_def split: if_splits)
    with f Inl assms show False
      unfolding lockArray_txn_def ex by simp
  next
    case (Inr res)
    obtain n tbl' where res: "res = (n, tbl')" by (cases res) auto
    from insert_rows_Inr [OF Inr [unfolded res]]
    have n: "n = length new" and t: "tbl' = tbl @ new" by simp_all
    show False
    proof (cases "n = 1")
      case True
      then obtain c where c: "cands = [c]" using n by (cases cands) (auto simp: new_def)
      then have "c \<in> set cands" by simp
      then have ck: "array_name c = arrayName ld \<and> query_id c = queryId ld"
        by (simp add: cands_def)
      have "copy_row (instanceId ld) (roleInt WORKER) c
              \<in> set (lockReadSql (arrayName ld) (queryId ld) (instanceId ld) tbl')"
        using ck by (simp add: t new_def c lockReadSql_def copy_row_def)
      then obtain r rs where "lockReadSql (arrayName ld) (queryId ld) (instanceId ld) tbl' = r # rs"
        by (cases "lockReadSql (arrayName ld) (queryId ld) (instanceId ld) tbl'") auto
      with f Inr res True assms show False
        unfolding lockArray_txn_def ex by simp
    next
      case False
      with f Inr res assms show False
        unfolding lockArray_txn_def ex by simp
    qed
  qed
  qed
qed

subsection \<open>Bulk deletion of locks\<close>



lemma runRestartableWork_attempt_final:
  assumes "0 < tries" and "\<And>e. fst (f healthy s) = Inl e \<Longrightarrow> \<not> retryable E e"
  shows "runRestartableWork E tries (attempt f) [] s = (f healthy s, [])"
proof -
  obtain n where n: "tries = Suc n" using assms(1) by (cases tries) auto
  obtain r s' where r: "f healthy s = (r, s')" by (cases "f healthy s") auto
  show ?thesis
  proof (cases r)
    case (Inl e)
    with r assms(2) [of e] show ?thesis by (simp add: n attempt_def)
  next
    case (Inr v)
    with r show ?thesis by (simp add: n attempt_def)
  qed
qed

text \<open>An instance id, or the query id of an enabled query filter, that the store
  refuses: the call fails and deletes nothing.\<close>

lemma deleteArrayLocks_out_of_range:
  assumes "\<not> bigint inst \<or> (q \<noteq> iq \<and> q \<noteq> 0 \<and> \<not> bigint q)"
  shows "deleteArrayLocks_impl iq healthy tbl inst q role =
           (Inl (SystemException SCIDB_LE_PG_QUERY_EXECUTION_FAILED), tbl)"
  using assms by (auto simp add: deleteArrayLocks_impl_def healthy_def catch_out_of_range)



subsection \<open>Releasing and updating a lock\<close>

text \<open>With a healthy store \<^verbatim>\<open>_unlockArray\<close> deletes the rows of the key and
  \<^verbatim>\<open>_updateArrayLock\<close> rewrites them, each reporting whether it was exactly one row;
  an id that the store refuses fails the call and leaves the table as it is. The public
  operations, allowed at least one try, do the same.\<close>

lemma unlockArray_healthy:
  "unlockArray_impl healthy tbl ld =
     (if bigint (queryId ld) \<and> bigint (instanceId ld)
      then (Inr (length (filter (holds_key ld) tbl) = 1), filter (\<lambda>r. \<not> holds_key ld r) tbl)
      else (Inl (SystemException SCIDB_LE_PG_QUERY_EXECUTION_FAILED), tbl))"
  by (simp add: unlockArray_impl_def healthy_def catch_out_of_range)

lemma updateArrayLock_healthy:
  "updateArrayLock_impl healthy tbl ld =
     (if bigintIds ld
      then (Inr (length (filter (holds_key ld) tbl) = 1),
            map (\<lambda>r. if holds_key ld r
                     then r\<lparr>array_id := arrayId ld, array_version_id := arrayVersionId ld,
                            array_version := arrayVersion ld, lock_mode := modeInt (lockMode ld)\<rparr>
                     else r) tbl)
      else (Inl (SystemException SCIDB_LE_PG_QUERY_EXECUTION_FAILED), tbl))"
  by (auto simp add: updateArrayLock_impl_def healthy_def catch_out_of_range bigintIds_def)

lemma unlockArray_one_try:
  assumes "0 < reconnectTries cfg"
  shows "unlockArray cfg ld [] tbl = (unlockArray_impl healthy tbl ld, [])"
  unfolding unlockArray_def
  by (rule runRestartableWork_attempt_final [OF assms])
     (auto simp add: unlockArray_healthy split: if_splits)

lemma updateArrayLock_one_try:
  assumes "0 < reconnectTries cfg"
  shows "updateArrayLock cfg ld [] tbl = (updateArrayLock_impl healthy tbl ld, [])"
  unfolding updateArrayLock_def
  by (rule runRestartableWork_attempt_final [OF assms])
     (auto simp add: updateArrayLock_healthy split: if_splits)

subsection \<open>The version catalog\<close>

lemma coalesce_max_Cons:
  "coalesce_max_version_id (r # rows) = max (ver_version_id r) (coalesce_max_version_id rows)"
  by (simp add: coalesce_max_version_id_def)

lemma coalesce_max_Max:
  "coalesce_max_version_id rows =
     (if rows = [] then 0 else Max (ver_version_id ` set rows))"
proof (induction rows)
  case Nil
  then show ?case by (simp add: coalesce_max_version_id_def)
next
  case (Cons r rows)
  show ?case
  proof (cases "rows = []")
    case True
    then show ?thesis by (simp add: coalesce_max_version_id_def)
  next
    case False
    then have "Max (ver_version_id ` set (r # rows)) = max (ver_version_id r) (Max (ver_version_id ` set rows))"
      by simp
    with Cons False show ?thesis by (simp add: coalesce_max_Cons)
  qed
qed

text \<open>An array id or a horizon beyond \<^verbatim>\<open>MAX_ARRAYID\<close>: the store refuses the
  statement and the call fails.\<close>

lemma getLastVersion_out_of_range:
  assumes "MAX_ARRAYID < a \<or> MAX_ARRAYID < h"
  shows "getLastVersion_impl a h healthy cat =
           (Inl (SystemException SCIDB_LE_PG_QUERY_EXECUTION_FAILED), cat)"
  using assms
  by (auto simp add: getLastVersion_impl_def healthy_def catch_out_of_range bigint_MAX_ARRAYID)



subsection \<open>Array boundaries\<close>

lemma boundaries_loop:
  "fold (\<lambda>i tbl. update_high_boundary (high ! i) a i (update_low_boundary (low ! i) a i tbl))
      [0..<n] tbl =
   map (\<lambda>r. if dim_array_id r = a \<and> dim_id r < n
            then r\<lparr>currStart := min (currStart r) (low ! dim_id r),
                   currEnd := max (currEnd r) (high ! dim_id r)\<rparr>
            else r) tbl"
proof (induction n)
  case 0
  then show ?case by simp
next
  case (Suc n)
  show ?case
    unfolding upt_Suc_append [OF le0] fold_append comp_def Suc
    by (auto simp: update_low_boundary_def update_high_boundary_def min_def max_def less_Suc_eq)
qed

text \<open>
  C9. With a healthy store, and the two coordinate vectors of the trimmed boundaries of
  the same length, \<^verbatim>\<open>_updateArrayBoundaries\<close> keeps every row of
  \<^verbatim>\<open>array_dimension\<close> in place and changes at most its two current bounds. The low
  bound of a dimension of the array becomes the new low exactly when the new low is
  strictly smaller than the stored one, and is unchanged otherwise; the high bound becomes
  the new high exactly when the new high is strictly larger. So the bounds only move
  outward, and a second call with the same arguments gives the same result and changes
  nothing. This holds for every array id: the call returns unless there is a statement
  to run and the store refuses the array id (one beyond its \<^verbatim>\<open>bigint\<close>), and a refused
  call changes nothing. \<^verbatim>\<open>updateArrayBoundaries\<close>, allowed at least one try, does the
  same.
\<close>

theorem updateArrayBoundaries_outward:
  assumes "length (endCoords (trimToDims ext bounds (descDimensions desc))) =
           length (startCoords (trimToDims ext bounds (descDimensions desc)))"
  shows "let low = startCoords (trimToDims ext bounds (descDimensions desc));
             high = endCoords (trimToDims ext bounds (descDimensions desc));
             tbl = tbl_array_dimension cat;
             res = fst (updateArrayBoundaries_impl ext desc bounds healthy cat);
             cat' = snd (updateArrayBoundaries_impl ext desc bounds healthy cat);
             tbl' = tbl_array_dimension cat'
         in res = (if low \<noteq> [] \<and> \<not> bigint (descId desc)
                   then Inl (SystemException SCIDB_LE_PG_QUERY_EXECUTION_FAILED) else Inr ())
            \<and> cat' = cat\<lparr>tbl_array_dimension := tbl'\<rparr>
            \<and> length tbl' = length tbl
            \<and> (\<forall>k < length tbl.
                  tbl' ! k = (tbl ! k)
                    \<lparr>currStart :=
                       (if bigint (descId desc)
                           \<and> dim_array_id (tbl ! k) = descId desc \<and> dim_id (tbl ! k) < length low
                           \<and> low ! dim_id (tbl ! k) < currStart (tbl ! k)
                        then low ! dim_id (tbl ! k) else currStart (tbl ! k)),
                     currEnd :=
                       (if bigint (descId desc)
                           \<and> dim_array_id (tbl ! k) = descId desc \<and> dim_id (tbl ! k) < length low
                           \<and> currEnd (tbl ! k) < high ! dim_id (tbl ! k)
                        then high ! dim_id (tbl ! k) else currEnd (tbl ! k))\<rparr>
                  \<and> currStart (tbl' ! k) \<le> currStart (tbl ! k)
                  \<and> currEnd (tbl ! k) \<le> currEnd (tbl' ! k))
            \<and> updateArrayBoundaries_impl ext desc bounds healthy cat' = (res, cat')
            \<and> (0 < reconnectTries cfg \<longrightarrow>
                 updateArrayBoundaries ext cfg desc bounds [] cat = ((res, cat'), []))"
proof -
  define low where "low = startCoords (trimToDims ext bounds (descDimensions desc))"
  define high where "high = endCoords (trimToDims ext bounds (descDimensions desc))"
  define res :: "Exception + unit" where
    "res = (if low \<noteq> [] \<and> \<not> bigint (descId desc)
            then Inl (SystemException SCIDB_LE_PG_QUERY_EXECUTION_FAILED) else Inr ())"
  define g where "g = (\<lambda>r::dimension_row.
            if bigint (descId desc) \<and> dim_array_id r = descId desc \<and> dim_id r < length low
            then r\<lparr>currStart := min (currStart r) (low ! dim_id r),
                   currEnd := max (currEnd r) (high ! dim_id r)\<rparr>
            else r)"
  have idle: "\<not> bigint (descId desc) \<Longrightarrow> map g = (\<lambda>tbl. tbl)"
    by (auto simp add: g_def fun_eq_iff map_idI)
  have run: "\<And>c. updateArrayBoundaries_impl ext desc bounds healthy c =
      (res, c\<lparr>tbl_array_dimension := map g (tbl_array_dimension c)\<rparr>)"
  proof -
    fix c
    show "updateArrayBoundaries_impl ext desc bounds healthy c =
      (res, c\<lparr>tbl_array_dimension := map g (tbl_array_dimension c)\<rparr>)"
    proof (cases "bigint (descId desc)")
      case True
      then show ?thesis
        unfolding updateArrayBoundaries_impl_def Let_def boundaries_loop
        by (simp add: healthy_def g_def low_def high_def res_def)
    next
      case False
      show ?thesis
      proof (cases "low = []")
        case True
        with False show ?thesis
          unfolding updateArrayBoundaries_impl_def Let_def boundaries_loop idle [OF False]
          by (simp add: healthy_def low_def [symmetric] res_def)
      next
        case nonempty: False
        with False show ?thesis
          unfolding updateArrayBoundaries_impl_def Let_def idle [OF False]
          by (simp add: healthy_def low_def [symmetric] res_def catch_out_of_range)
      qed
    qed
  qed
  have gg: "\<And>r. g (g r) = g r"
    by (simp add: g_def)
  have row: "\<And>r. g r = r
                    \<lparr>currStart :=
                       (if bigint (descId desc) \<and> dim_array_id r = descId desc
                           \<and> dim_id r < length low \<and> low ! dim_id r < currStart r
                        then low ! dim_id r else currStart r),
                     currEnd :=
                       (if bigint (descId desc) \<and> dim_array_id r = descId desc
                           \<and> dim_id r < length low \<and> currEnd r < high ! dim_id r
                        then high ! dim_id r else currEnd r)\<rparr>"
    by (simp add: g_def min_def max_def)
  have mono: "\<And>r. currStart (g r) \<le> currStart r \<and> currEnd r \<le> currEnd (g r)"
    by (simp add: g_def)
  have notretry: "\<And>e. res = Inl e \<Longrightarrow> e \<noteq> BrokenConnection"
    by (auto simp add: res_def split: if_splits)
  have wrap: "0 < reconnectTries cfg \<Longrightarrow>
      updateArrayBoundaries ext cfg desc bounds [] cat =
        ((res, cat\<lparr>tbl_array_dimension := map g (tbl_array_dimension cat)\<rparr>), [])"
  proof -
    assume t: "0 < reconnectTries cfg"
    show ?thesis
      unfolding updateArrayBoundaries_def run [symmetric]
      by (rule runRestartableWork_attempt_final [OF t]) (simp add: run notretry)
  qed
  show ?thesis
    unfolding Let_def low_def [symmetric] high_def [symmetric] run fst_conv snd_conv
      res_def [symmetric]
    apply (intro conjI allI impI)
    subgoal by (rule refl)
    subgoal by simp
    subgoal by simp
    subgoal for k using row [of "tbl_array_dimension cat ! k"] by simp
    subgoal for k using mono [of "tbl_array_dimension cat ! k"] by simp
    subgoal for k using mono [of "tbl_array_dimension cat ! k"] by simp
    subgoal by (simp add: gg)
    subgoal using wrap by simp
    done
qed

theorem updateArrayBoundaries_outward_witness:
  "updateArrayBoundaries
      \<lparr>isNameUnversioned = (\<lambda>n. True), getVersionFromName = (\<lambda>n. 0),
       findNamespaceTr = (\<lambda>n. True), trimToDims = (\<lambda>b d. b)\<rparr>
      \<lparr>reconnectTries = 3, serializedTxnTries = 3\<rparr>
      \<lparr>descId = 7, descUAId = 7, descVersionId = 0, descName = ''A'',
       descPartitioningSchema = Some 1, descFlags = 0, descAttributes = [], descDimensions = []\<rparr>
      \<lparr>startCoords = [5, - 3], endCoords = [8, 40]\<rparr> []
      \<lparr>tbl_array = [], tbl_array_attribute = [],
       tbl_array_dimension =
         [\<lparr>dim_array_id = 7, dim_id = 0, dim_name = ''x'', startMin = 0, currStart = 2, currEnd = 6,
           endMax = 100, chunk_interval = 10, chunk_overlap = 0\<rparr>,
          \<lparr>dim_array_id = 7, dim_id = 1, dim_name = ''y'', startMin = - 10, currStart = 0, currEnd = 50,
           endMax = 100, chunk_interval = 10, chunk_overlap = 0\<rparr>],
       tbl_array_version = []\<rparr>
   = ((Inr (),
      \<lparr>tbl_array = [], tbl_array_attribute = [],
       tbl_array_dimension =
         [\<lparr>dim_array_id = 7, dim_id = 0, dim_name = ''x'', startMin = 0, currStart = 2, currEnd = 8,
           endMax = 100, chunk_interval = 10, chunk_overlap = 0\<rparr>,
          \<lparr>dim_array_id = 7, dim_id = 1, dim_name = ''y'', startMin = - 10, currStart = - 3, currEnd = 50,
           endMax = 100, chunk_interval = 10, chunk_overlap = 0\<rparr>],
       tbl_array_version = []\<rparr>), [])
   \<and> updateArrayBoundaries_impl
      \<lparr>isNameUnversioned = (\<lambda>n. True), getVersionFromName = (\<lambda>n. 0),
       findNamespaceTr = (\<lambda>n. True), trimToDims = (\<lambda>b d. b)\<rparr>
      \<lparr>descId = 9223372036854775808, descUAId = 7, descVersionId = 0, descName = ''A'',
       descPartitioningSchema = Some 1, descFlags = 0, descAttributes = [], descDimensions = []\<rparr>
      \<lparr>startCoords = [5, - 3], endCoords = [8, 40]\<rparr> healthy
      \<lparr>tbl_array = [], tbl_array_attribute = [], tbl_array_dimension = [],
       tbl_array_version = []\<rparr>
   = (Inl (SystemException SCIDB_LE_PG_QUERY_EXECUTION_FAILED),
      \<lparr>tbl_array = [], tbl_array_attribute = [], tbl_array_dimension = [],
       tbl_array_version = []\<rparr>)"
proof -
  let ?ext = "\<lparr>isNameUnversioned = (\<lambda>n. True), getVersionFromName = (\<lambda>n. 0),
       findNamespaceTr = (\<lambda>n. True), trimToDims = (\<lambda>b d. b)\<rparr>"
  let ?cfg = "\<lparr>reconnectTries = 3, serializedTxnTries = 3\<rparr>"
  let ?desc = "\<lparr>descId = 7, descUAId = 7, descVersionId = 0, descName = ''A'',
       descPartitioningSchema = Some 1, descFlags = 0, descAttributes = [], descDimensions = []\<rparr>"
  let ?far = "\<lparr>descId = 9223372036854775808, descUAId = 7, descVersionId = 0, descName = ''A'',
       descPartitioningSchema = Some 1, descFlags = 0, descAttributes = [], descDimensions = []\<rparr>"
  let ?b = "\<lparr>startCoords = [5, - 3], endCoords = [8, 40]\<rparr>"
  let ?cat = "\<lparr>tbl_array = [], tbl_array_attribute = [],
       tbl_array_dimension =
         [\<lparr>dim_array_id = 7, dim_id = 0, dim_name = ''x'', startMin = 0, currStart = 2, currEnd = 6,
           endMax = 100, chunk_interval = 10, chunk_overlap = 0\<rparr>,
          \<lparr>dim_array_id = 7, dim_id = 1, dim_name = ''y'', startMin = - 10, currStart = 0, currEnd = 50,
           endMax = 100, chunk_interval = 10, chunk_overlap = 0\<rparr>],
       tbl_array_version = []\<rparr>"
  let ?empty = "\<lparr>tbl_array = [], tbl_array_attribute = [], tbl_array_dimension = [],
       tbl_array_version = []\<rparr>"
  have len: "length (endCoords (trimToDims ?ext ?b (descDimensions ?desc))) =
           length (startCoords (trimToDims ?ext ?b (descDimensions ?desc)))"
    by simp
  have len': "length (endCoords (trimToDims ?ext ?b (descDimensions ?far))) =
           length (startCoords (trimToDims ?ext ?b (descDimensions ?far)))"
    by simp
  have b: "bigint 7" "\<not> bigint 9223372036854775808"
    by (simp_all add: bigint_def)
  obtain r0 r1 where t': "tbl_array_dimension (snd (updateArrayBoundaries_impl ?ext ?desc ?b healthy ?cat)) = [r0, r1]"
    using updateArrayBoundaries_outward [OF len, of ?cat ?cfg]
    by (auto simp: Let_def length_Suc_conv numeral_2_eq_2)
  have near: "updateArrayBoundaries ?ext ?cfg ?desc ?b [] ?cat =
      ((Inr (),
      \<lparr>tbl_array = [], tbl_array_attribute = [],
       tbl_array_dimension =
         [\<lparr>dim_array_id = 7, dim_id = 0, dim_name = ''x'', startMin = 0, currStart = 2, currEnd = 8,
           endMax = 100, chunk_interval = 10, chunk_overlap = 0\<rparr>,
          \<lparr>dim_array_id = 7, dim_id = 1, dim_name = ''y'', startMin = - 10, currStart = - 3, currEnd = 50,
           endMax = 100, chunk_interval = 10, chunk_overlap = 0\<rparr>],
       tbl_array_version = []\<rparr>), [])"
    using updateArrayBoundaries_outward [OF len, of ?cat ?cfg] t' b
    by (auto simp add: Let_def All_less_Suc prod_eq_iff)
  have far: "updateArrayBoundaries_impl ?ext ?far ?b healthy ?empty =
      (Inl (SystemException SCIDB_LE_PG_QUERY_EXECUTION_FAILED), ?empty)"
    using updateArrayBoundaries_outward [OF len', of ?empty ?cfg] b
    by (auto simp add: Let_def prod_eq_iff)
  from near far show ?thesis by (rule conjI)
qed

subsection \<open>Creating a version\<close>

lemma addArray_tr_Inr:
  "addArray_tr ext ns d cat = Inr cat' \<Longrightarrow>
     tbl_array_version cat' = tbl_array_version cat
     \<and> (\<exists>ps. descPartitioningSchema d = Some ps
          \<and> tbl_array cat' = tbl_array cat @
              [\<lparr>arr_id = descId d, arr_name = descName d, arr_partitioning_schema = ps,
                arr_flags = descFlags d\<rparr>])"
  by (auto simp: addArray_tr_def Let_def split: option.splits if_splits)

text \<open>An array id that the store refuses is not inserted.\<close>

lemma addArray_tr_bigint:
  "addArray_tr ext ns d cat = Inr cat' \<Longrightarrow> bigint (descId d)"
  by (auto simp: addArray_tr_def Let_def split: option.splits if_splits)

lemma coalesce_max_bound:
  "\<forall>r \<in> set rows. ver_version_id r < b \<Longrightarrow> 0 < b \<Longrightarrow> coalesce_max_version_id rows < b"
  by (induction rows) (auto simp: coalesce_max_Cons coalesce_max_version_id_def)

lemma coalesce_max_snoc:
  "coalesce_max_version_id (rows @ [r]) = max (ver_version_id r) (coalesce_max_version_id rows)"
  by (induction rows) (auto simp: coalesce_max_Cons coalesce_max_version_id_def)

lemma createNewVersion_tr_eq:
  assumes "\<forall>r \<in> set (tbl_array_version cat). ver_version_id r < 2 ^ 63"
  shows "createNewVersion_tr a v ts cat =
     (let m = coalesce_max_version_id (filter (\<lambda>r. ver_array_id r = a) (tbl_array_version cat))
      in if m + 1 < 2 ^ 63
         then Inr (m + 1,
                   cat\<lparr>tbl_array_version := tbl_array_version cat @
                         [\<lparr>ver_array_id = a, ver_version_array_id = v, ver_version_id = m + 1,
                           ver_time_stamp = ts\<rparr>]\<rparr>)
         else Inl (Pq (sql_error ''ERROR:  value out of range for type bigint'')))"
proof -
  define m where "m = coalesce_max_version_id (filter (\<lambda>r. ver_array_id r = a) (tbl_array_version cat))"
  have "m < 2 ^ 63"
    unfolding m_def using assms by (intro coalesce_max_bound) auto
  then have "m + 1 < 2 ^ 64" by simp
  then have "(m + 1) mod 2 ^ 64 = m + 1" by simp
  then show ?thesis
    unfolding createNewVersion_tr_def Let_def m_def [symmetric] by simp
qed

lemma addArrayVersion_txn_Inr:
  assumes "addArrayVersion_txn ext ts ns unv ver cat = Inr (n, cat')"
  shows "\<exists>cat2. tbl_array_version cat2 = tbl_array_version cat
           \<and> (\<exists>ps. descPartitioningSchema ver = Some ps
                 \<and> \<lparr>arr_id = descId ver, arr_name = descName ver, arr_partitioning_schema = ps,
                     arr_flags = descFlags ver\<rparr> \<in> set (tbl_array cat2))
           \<and> createNewVersion_tr (descUAId ver) (descId ver) ts cat2 = Inr (n, cat')"
proof -
  obtain cat1 where c1: "(case unv of None \<Rightarrow> Inr cat | Some u \<Rightarrow> addArray_tr ext ns u cat) = Inr cat1"
    using assms by (auto simp: addArrayVersion_txn_def split: sum.splits)
  then have v1: "tbl_array_version cat1 = tbl_array_version cat"
    by (cases unv) (auto dest: addArray_tr_Inr)
  obtain cat2 where c2: "addArray_tr ext ns ver cat1 = Inr cat2"
    and c3: "createNewVersion_tr (descUAId ver) (descId ver) ts cat2 = Inr (n, cat')"
    using assms c1 by (auto simp: addArrayVersion_txn_def split: sum.splits)
  from addArray_tr_Inr [OF c2] v1
  have "tbl_array_version cat2 = tbl_array_version cat
           \<and> (\<exists>ps. descPartitioningSchema ver = Some ps
                 \<and> \<lparr>arr_id = descId ver, arr_name = descName ver, arr_partitioning_schema = ps,
                     arr_flags = descFlags ver\<rparr> \<in> set (tbl_array cat2))"
    by auto
  with c3 show ?thesis by blast
qed

text \<open>
  C7. The version rows hold \<^verbatim>\<open>bigint\<close> version ids (below \<open>2^63\<close>). Let \<open>m\<close> be the
  greatest version id among the rows of the base array, 0 when it has none. While
  \<open>m + 1\<close> is a \<^verbatim>\<open>bigint\<close>, \<^verbatim>\<open>_createNewVersion\<close> returns \<open>m + 1\<close> and appends the row
  (base array, version array, \<open>m + 1\<close>, time stamp), changing nothing else: the first
  version is 1, and the call after it returns \<open>m + 2\<close>. \<^verbatim>\<open>_addArrayVersion\<close> inserts the
  descriptor of the versioned array and this version row in one transaction: when it
  returns normally both rows are in the catalog, and when it throws the catalog is as it
  was before the call.
\<close>

theorem createNewVersion_next:
  assumes "\<forall>r \<in> set (tbl_array_version cat). ver_version_id r < 2 ^ 63"
  shows "let rows = filter (\<lambda>r. ver_array_id r = a) (tbl_array_version cat);
             m = (if rows = [] then 0 else Max (ver_version_id ` set rows));
             row = \<lparr>ver_array_id = a, ver_version_array_id = v, ver_version_id = m + 1,
                    ver_time_stamp = ts\<rparr>;
             cat1 = cat\<lparr>tbl_array_version := tbl_array_version cat @ [row]\<rparr>
         in (m + 1 < 2 ^ 63 \<longrightarrow> createNewVersion_tr a v ts cat = Inr (m + 1, cat1))
            \<and> (m + 2 < 2 ^ 63 \<longrightarrow> (\<exists>cat2. createNewVersion_tr a v2 ts2 cat1 = Inr (m + 2, cat2)))
            \<and> (\<forall>res cat'.
                  descUAId versionedDesc = a \<and> descId versionedDesc = v
                  \<and> addArrayVersion_impl ext ts ns unversionedDesc versionedDesc env cat = (res, cat')
                  \<longrightarrow> (case res of
                         Inl e \<Rightarrow> cat' = cat
                       | Inr u \<Rightarrow>
                           tbl_array_version cat' = tbl_array_version cat @ [row]
                           \<and> (\<exists>ps. descPartitioningSchema versionedDesc = Some ps
                                 \<and> \<lparr>arr_id = v, arr_name = descName versionedDesc,
                                     arr_partitioning_schema = ps,
                                     arr_flags = descFlags versionedDesc\<rparr> \<in> set (tbl_array cat'))))"
proof -
  define rows where "rows = filter (\<lambda>r. ver_array_id r = a) (tbl_array_version cat)"
  define m where "m = (if rows = [] then 0 else Max (ver_version_id ` set rows))"
  define row where "row = \<lparr>ver_array_id = a, ver_version_array_id = v, ver_version_id = m + 1,
                    ver_time_stamp = ts\<rparr>"
  define cat1 where "cat1 = cat\<lparr>tbl_array_version := tbl_array_version cat @ [row]\<rparr>"
  have m: "coalesce_max_version_id rows = m"
    by (simp only: coalesce_max_Max m_def)
  have create: "\<And>c. tbl_array_version c = tbl_array_version cat \<Longrightarrow>
      createNewVersion_tr a v ts c =
        (if m + 1 < 2 ^ 63 then Inr (m + 1, c\<lparr>tbl_array_version := tbl_array_version cat @ [row]\<rparr>)
         else Inl (Pq (sql_error ''ERROR:  value out of range for type bigint'')))"
    using assms by (subst createNewVersion_tr_eq) (simp_all add: Let_def rows_def [symmetric] m row_def)
  have first: "m + 1 < 2 ^ 63 \<longrightarrow> createNewVersion_tr a v ts cat = Inr (m + 1, cat1)"
    by (simp add: create cat1_def)
  have second: "m + 2 < 2 ^ 63 \<longrightarrow> (\<exists>cat2. createNewVersion_tr a v2 ts2 cat1 = Inr (m + 2, cat2))"
  proof
    assume room: "m + 2 < 2 ^ 63"
    have big: "\<forall>r \<in> set (tbl_array_version cat1). ver_version_id r < 2 ^ 63"
      using assms room by (auto simp: cat1_def row_def)
    have "filter (\<lambda>r. ver_array_id r = a) (tbl_array_version cat1) = rows @ [row]"
      by (simp add: cat1_def rows_def row_def)
    then have "coalesce_max_version_id (filter (\<lambda>r. ver_array_id r = a) (tbl_array_version cat1)) = m + 1"
      by (simp add: coalesce_max_snoc m row_def)
    then show "\<exists>cat2. createNewVersion_tr a v2 ts2 cat1 = Inr (m + 2, cat2)"
      using room by (simp add: createNewVersion_tr_eq [OF big] Let_def)
  qed
  have atomic: "\<forall>res cat'.
                  descUAId versionedDesc = a \<and> descId versionedDesc = v
                  \<and> addArrayVersion_impl ext ts ns unversionedDesc versionedDesc env cat = (res, cat')
                  \<longrightarrow> (case res of
                         Inl e \<Rightarrow> cat' = cat
                       | Inr u \<Rightarrow>
                           tbl_array_version cat' = tbl_array_version cat @ [row]
                           \<and> (\<exists>ps. descPartitioningSchema versionedDesc = Some ps
                                 \<and> \<lparr>arr_id = v, arr_name = descName versionedDesc,
                                     arr_partitioning_schema = ps,
                                     arr_flags = descFlags versionedDesc\<rparr> \<in> set (tbl_array cat')))"
  proof (intro allI impI, elim conjE)
    fix res cat'
    assume ua: "descUAId versionedDesc = a" and id: "descId versionedDesc = v"
      and run: "addArrayVersion_impl ext ts ns unversionedDesc versionedDesc env cat = (res, cat')"
    show "case res of
            Inl e \<Rightarrow> cat' = cat
          | Inr u \<Rightarrow>
              tbl_array_version cat' = tbl_array_version cat @ [row]
              \<and> (\<exists>ps. descPartitioningSchema versionedDesc = Some ps
                    \<and> \<lparr>arr_id = v, arr_name = descName versionedDesc,
                        arr_partitioning_schema = ps,
                        arr_flags = descFlags versionedDesc\<rparr> \<in> set (tbl_array cat'))"
    proof (cases res)
      case (Inl e)
      with run show ?thesis
        by (auto simp: addArrayVersion_impl_def split: option.splits sum.splits thrown.splits)
    next
      case (Inr u)
      with run obtain n where txn: "addArrayVersion_txn ext ts ns unversionedDesc versionedDesc cat = Inr (n, cat')"
        by (auto simp: addArrayVersion_impl_def split: option.splits sum.splits thrown.splits)
      from addArrayVersion_txn_Inr [OF txn] ua id
      obtain cat2 ps where v2: "tbl_array_version cat2 = tbl_array_version cat"
        and ps: "descPartitioningSchema versionedDesc = Some ps"
        and mem: "\<lparr>arr_id = v, arr_name = descName versionedDesc, arr_partitioning_schema = ps,
                   arr_flags = descFlags versionedDesc\<rparr> \<in> set (tbl_array cat2)"
        and cr: "createNewVersion_tr a v ts cat2 = Inr (n, cat')"
        by auto
      from cr create [OF v2]
      have "cat' = cat2\<lparr>tbl_array_version := tbl_array_version cat @ [row]\<rparr>"
        by (auto split: if_splits)
      with ps mem Inr show ?thesis by auto
    qed
  qed
  from first second atomic show ?thesis
    unfolding Let_def rows_def [symmetric] m_def [symmetric] row_def [symmetric] cat1_def [symmetric]
    by blast
qed

theorem createNewVersion_next_witness:
  "createNewVersion_tr 100 102 7
        \<lparr>tbl_array = [\<lparr>arr_id = 100, arr_name = ''A'', arr_partitioning_schema = 1, arr_flags = 0\<rparr>],
         tbl_array_attribute = [], tbl_array_dimension = [],
         tbl_array_version =
           [\<lparr>ver_array_id = 100, ver_version_array_id = 101, ver_version_id = 1, ver_time_stamp = 5\<rparr>]\<rparr>
      = Inr (2,
        \<lparr>tbl_array = [\<lparr>arr_id = 100, arr_name = ''A'', arr_partitioning_schema = 1, arr_flags = 0\<rparr>],
         tbl_array_attribute = [], tbl_array_dimension = [],
         tbl_array_version =
           [\<lparr>ver_array_id = 100, ver_version_array_id = 101, ver_version_id = 1, ver_time_stamp = 5\<rparr>,
            \<lparr>ver_array_id = 100, ver_version_array_id = 102, ver_version_id = 2, ver_time_stamp = 7\<rparr>]\<rparr>)
   \<and> addArrayVersion_impl
        \<lparr>isNameUnversioned = (\<lambda>n. n = ''A''), getVersionFromName = (\<lambda>n. 2),
         findNamespaceTr = (\<lambda>n. True), trimToDims = (\<lambda>b d. b)\<rparr>
        7 \<lparr>nsName = ''public'', nsId = 1\<rparr> None
        \<lparr>descId = 102, descUAId = 100, descVersionId = 2, descName = ''A@2'',
         descPartitioningSchema = Some 1, descFlags = 0, descAttributes = [], descDimensions = []\<rparr>
        healthy
        \<lparr>tbl_array = [\<lparr>arr_id = 100, arr_name = ''A'', arr_partitioning_schema = 1, arr_flags = 0\<rparr>],
         tbl_array_attribute = [], tbl_array_dimension = [],
         tbl_array_version =
           [\<lparr>ver_array_id = 100, ver_version_array_id = 101, ver_version_id = 1, ver_time_stamp = 5\<rparr>]\<rparr>
      = (Inr (),
        \<lparr>tbl_array = [\<lparr>arr_id = 100, arr_name = ''A'', arr_partitioning_schema = 1, arr_flags = 0\<rparr>,
                      \<lparr>arr_id = 102, arr_name = ''A@2'', arr_partitioning_schema = 1, arr_flags = 0\<rparr>],
         tbl_array_attribute = [], tbl_array_dimension = [],
         tbl_array_version =
           [\<lparr>ver_array_id = 100, ver_version_array_id = 101, ver_version_id = 1, ver_time_stamp = 5\<rparr>,
            \<lparr>ver_array_id = 100, ver_version_array_id = 102, ver_version_id = 2, ver_time_stamp = 7\<rparr>]\<rparr>)"
proof -
  let ?cat = "\<lparr>tbl_array = [\<lparr>arr_id = 100, arr_name = ''A'', arr_partitioning_schema = 1, arr_flags = 0\<rparr>],
         tbl_array_attribute = [], tbl_array_dimension = [],
         tbl_array_version =
           [\<lparr>ver_array_id = 100, ver_version_array_id = 101, ver_version_id = 1, ver_time_stamp = 5\<rparr>]\<rparr>"
  have big: "\<forall>r \<in> set (tbl_array_version ?cat). ver_version_id r < 2 ^ 63"
    by simp
  have run: "addArrayVersion_impl
        \<lparr>isNameUnversioned = (\<lambda>n. n = ''A''), getVersionFromName = (\<lambda>n. 2),
         findNamespaceTr = (\<lambda>n. True), trimToDims = (\<lambda>b d. b)\<rparr>
        7 \<lparr>nsName = ''public'', nsId = 1\<rparr> None
        \<lparr>descId = 102, descUAId = 100, descVersionId = 2, descName = ''A@2'',
         descPartitioningSchema = Some 1, descFlags = 0, descAttributes = [], descDimensions = []\<rparr>
        healthy ?cat
      = (Inr (),
        \<lparr>tbl_array = [\<lparr>arr_id = 100, arr_name = ''A'', arr_partitioning_schema = 1, arr_flags = 0\<rparr>,
                      \<lparr>arr_id = 102, arr_name = ''A@2'', arr_partitioning_schema = 1, arr_flags = 0\<rparr>],
         tbl_array_attribute = [], tbl_array_dimension = [],
         tbl_array_version =
           [\<lparr>ver_array_id = 100, ver_version_array_id = 101, ver_version_id = 1, ver_time_stamp = 5\<rparr>,
            \<lparr>ver_array_id = 100, ver_version_array_id = 102, ver_version_id = 2, ver_time_stamp = 7\<rparr>]\<rparr>)"
    by (simp add: addArrayVersion_impl_def addArrayVersion_txn_def addArray_tr_def
          createNewVersion_tr_def coalesce_max_version_id_def healthy_def Let_def bigint_def)
  show ?thesis
    using createNewVersion_next [OF big, of 100 102 7] run
    by (simp add: Let_def)
qed

subsection \<open>Isolation level and retry policy of lockArray\<close>

text \<open>For comparison, an operation that runs a serializable transaction:
  \<^verbatim>\<open>addArrayVersion\<close> meets a serialization failure of the store, the inner policy
  runs the work again, and the version is created.\<close>

lemma addArrayVersion_retries_conflict:
  "fst (addArrayVersion
      \<lparr>isNameUnversioned = (\<lambda>n. n = ''A''), getVersionFromName = (\<lambda>n. 1),
       findNamespaceTr = (\<lambda>n. True), trimToDims = (\<lambda>b d. b)\<rparr>
      \<lparr>reconnectTries = 2, serializedTxnTries = 2\<rparr> 7 \<lparr>nsName = ''public'', nsId = 1\<rparr> None
      \<lparr>descId = 101, descUAId = 100, descVersionId = 1, descName = ''A@1'',
       descPartitioningSchema = Some 1, descFlags = 0, descAttributes = [], descDimensions = []\<rparr>
      [conflicting, healthy]
      \<lparr>tbl_array = [], tbl_array_attribute = [], tbl_array_dimension = [], tbl_array_version = []\<rparr>)
   = (Inr (),
       \<lparr>tbl_array = [\<lparr>arr_id = 101, arr_name = ''A@1'', arr_partitioning_schema = 1, arr_flags = 0\<rparr>],
        tbl_array_attribute = [], tbl_array_dimension = [],
        tbl_array_version =
          [\<lparr>ver_array_id = 100, ver_version_array_id = 101, ver_version_id = 1, ver_time_stamp = 7\<rparr>]\<rparr>)"
proof -
  have two: "\<And>E w. runRestartableWork E 2 w = runRestartableWork E (Suc (Suc 0)) w"
    by (simp add: numeral_2_eq_2)
  show ?thesis
    by (simp add: addArrayVersion_def two attempt_def conflicting_def healthy_def
          addArrayVersion_impl_def catch_serializable_def throwOnSerializationConflict_def
          addArrayVersion_txn_def addArray_tr_def createNewVersion_tr_def
          coalesce_max_version_id_def Let_def bigint_def)
qed




subsection \<open>Mutual exclusion in the lock table\<close>

lemma mutex_dominated:
  assumes "lockMutualExclusion tbl"
    and "\<forall>r' \<in> set tbl'. \<exists>r \<in> set tbl. array_name r = array_name r' \<and> query_id r = query_id r'
                          \<and> (lock_mode r' > modeInt RD \<longrightarrow> lock_mode r > modeInt RD)"
  shows "lockMutualExclusion tbl'"
  unfolding lockMutualExclusion_def
proof (intro ballI impI, elim conjE)
  fix r1 r2
  assume r1: "r1 \<in> set tbl'" and r2: "r2 \<in> set tbl'"
    and n: "array_name r1 = array_name r2"
    and m1: "lock_mode r1 > modeInt RD" and m2: "lock_mode r2 > modeInt RD"
  from assms(2) r1 m1 obtain s1 where s1: "s1 \<in> set tbl" "array_name s1 = array_name r1"
      "query_id s1 = query_id r1" "lock_mode s1 > modeInt RD" by blast
  from assms(2) r2 m2 obtain s2 where s2: "s2 \<in> set tbl" "array_name s2 = array_name r2"
      "query_id s2 = query_id r2" "lock_mode s2 > modeInt RD" by blast
  have "array_name s1 = array_name s2" using s1(2) s2(2) n by simp
  with assms(1) s1(1,4) s2(1,4) have "query_id s1 = query_id s2"
    unfolding lockMutualExclusion_def by blast
  with s1(3) s2(3) show "query_id r1 = query_id r2" by simp
qed

lemma mutex_append_one:
  assumes "lockMutualExclusion tbl"
    and "lock_mode r' > modeInt RD \<longrightarrow>
           (\<forall>r \<in> set tbl. array_name r = array_name r' \<and> lock_mode r > modeInt RD
               \<longrightarrow> query_id r = query_id r')"
  shows "lockMutualExclusion (tbl @ [r'])"
  unfolding lockMutualExclusion_def
proof (intro ballI impI, elim conjE)
  fix r1 r2
  assume r1: "r1 \<in> set (tbl @ [r'])" and r2: "r2 \<in> set (tbl @ [r'])"
    and n: "array_name r1 = array_name r2"
    and m1: "lock_mode r1 > modeInt RD" and m2: "lock_mode r2 > modeInt RD"
  from r1 r2 consider "r1 \<in> set tbl" "r2 \<in> set tbl" | "r1 = r'" "r2 \<in> set tbl"
    | "r1 \<in> set tbl" "r2 = r'" | "r1 = r'" "r2 = r'"
    by auto
  then show "query_id r1 = query_id r2"
  proof cases
    case 1
    with assms(1) n m1 m2 show ?thesis unfolding lockMutualExclusion_def by blast
  next
    case 2
    with assms(2) n m1 m2 show ?thesis by simp
  next
    case 3
    with assms(2) n m1 m2 show ?thesis by simp
  next
    case 4
    then show ?thesis by simp
  qed
qed

lemma getLockInsertSql_Inr:
  "getLockInsertSql ld = Inr sql \<Longrightarrow>
     (instanceRole ld = COORD \<and> lockMode ld = RD \<and> sql = CoordRdSql)
   \<or> (instanceRole ld = COORD \<and> (lockMode ld = WR \<or> lockMode ld = CRT) \<and> sql = CoordWrSql)
   \<or> (instanceRole ld = WORKER \<and> lockMode ld = WR \<and> sql = WorkerWrSql)
   \<or> (instanceRole ld = COORD \<and> (lockMode ld = XCL \<or> lockMode ld = RM \<or> lockMode ld = RNF)
        \<and> sql = CoordExclSql)
   \<or> (instanceRole ld = WORKER \<and> lockMode ld = XCL \<and> sql = WorkerXclSql)"
  apply (cases "instanceRole ld"; cases "lockMode ld")
  apply (simp_all add: getLockInsertSql_def)
  done

lemma if_Inl_Inr: "(if c then Inl e else x) = Inr y \<Longrightarrow> x = Inr y"
  by (simp split: if_splits)

lemma insert_copies_table:
  assumes "insert_rows (map (copy_row i w) (filter P tbl)) tbl = Inr (n, tbl')"
  shows "\<exists>cands. set cands \<subseteq> set tbl \<and> tbl' = tbl @ map (copy_row i w) cands"
proof -
  from insert_rows_Inr [OF assms] have "tbl' = tbl @ map (copy_row i w) (filter P tbl)" by simp
  moreover have "set (filter P tbl) \<subseteq> set tbl" by simp
  ultimately show ?thesis by blast
qed

lemma lockArray_txn_WorkerWr_table:
  assumes "instanceRole ld = WORKER" and "lockMode ld = WR"
    and "lockArray_txn WorkerWrSql ld tbl = Inr (n, ld', tbl')"
  shows "\<exists>cands. set cands \<subseteq> set tbl
           \<and> tbl' = tbl @ map (copy_row (instanceId ld) (roleInt WORKER)) cands"
proof -
  obtain n0 where "execLockInsert WorkerWrSql
        [PStr (arrayName ld), PBig (queryId ld), PBig (instanceId ld),
         PInt (roleInt WORKER), PInt (modeInt WR), PInt (modeInt CRT)] tbl = Inr (n0, tbl')"
    using assms by (auto simp: lockArray_txn_def split: sum.splits if_splits list.splits)
  then show ?thesis
    unfolding exec_WorkerWrSql by (rule insert_copies_table [OF if_Inl_Inr])
qed

lemma lockArray_txn_WorkerXcl_table:
  assumes "instanceRole ld = WORKER" and "lockMode ld = XCL"
    and "lockArray_txn WorkerXclSql ld tbl = Inr (n, ld', tbl')"
  shows "\<exists>cands. set cands \<subseteq> set tbl
           \<and> tbl' = tbl @ map (copy_row (instanceId ld) (roleInt WORKER)) cands"
proof -
  obtain n0 where "execLockInsert WorkerXclSql
        [PStr (arrayName ld), PBig (queryId ld), PBig (instanceId ld),
         PInt (roleInt WORKER), PInt (modeInt XCL)] tbl = Inr (n0, tbl')"
    using assms by (auto simp: lockArray_txn_def split: sum.splits if_splits list.splits)
  then show ?thesis
    unfolding exec_WorkerXclSql by (rule insert_copies_table [OF if_Inl_Inr])
qed

lemma guarded_insert_cases:
  assumes "(if B then Inr (0, ld, tbl) else if K then Inl e else Inr (1, ld, tbl @ [r]))
             = Inr (n, ld', tbl')"
  shows "tbl' = tbl \<or> (\<not> B \<and> tbl' = tbl @ [r])"
  using assms by (cases B; cases K) simp_all

lemma lockArray_impl_table_eq:
  "snd (snd (lockArray_impl env tbl ld ec)) =
     (case getLockInsertSql ld of
        Inl e \<Rightarrow> tbl
      | Inr sql \<Rightarrow>
          (case env read_committed of
             Some e \<Rightarrow> tbl
           | None \<Rightarrow>
               (case lockArray_txn sql ld tbl of
                  Inl t \<Rightarrow> tbl
                | Inr (n, ld', tbl') \<Rightarrow> tbl')))"
  by (simp add: lockArray_impl_def split: sum.split option.split thrown.split prod.split)

lemma lockArray_impl_unchanged_or_txn:
  "snd (snd (lockArray_impl env tbl ld ec)) = tbl
   \<or> (\<exists>sql n ld'. getLockInsertSql ld = Inr sql
          \<and> lockArray_txn sql ld tbl = Inr (n, ld', snd (snd (lockArray_impl env tbl ld ec))))"
  unfolding lockArray_impl_table_eq
  by (simp split: sum.split option.split prod.split)

text \<open>What \<^verbatim>\<open>_lockArray\<close> can do to the table: nothing, or append the coordinator's row
  when the statement's guard lets it, or append copies of rows of the table for a
  worker.\<close>

lemma lockArray_impl_table:
  "snd (snd (lockArray_impl env tbl ld ec)) = tbl
   \<or> (instanceRole ld = COORD
        \<and> snd (snd (lockArray_impl env tbl ld ec)) = tbl @ [coordRow ld]
        \<and> (lockMode ld = RD
            \<or> ((lockMode ld = WR \<or> lockMode ld = CRT)
                \<and> \<not> (\<exists>avl \<in> set tbl. array_name avl = arrayName ld
                          \<and> query_id avl \<noteq> queryId ld \<and> lock_mode avl > modeInt RD))
            \<or> ((lockMode ld = XCL \<or> lockMode ld = RM \<or> lockMode ld = RNF)
                \<and> \<not> (\<exists>avl \<in> set tbl. array_name avl = arrayName ld
                          \<and> query_id avl \<noteq> queryId ld))))
   \<or> (instanceRole ld = WORKER
        \<and> (\<exists>cands. set cands \<subseteq> set tbl
              \<and> snd (snd (lockArray_impl env tbl ld ec)) =
                  tbl @ map (copy_row (instanceId ld) (roleInt WORKER)) cands))"
proof -
  define tbl' where "tbl' = snd (snd (lockArray_impl env tbl ld ec))"
  consider "tbl' = tbl"
    | sql n ld' where "getLockInsertSql ld = Inr sql" "lockArray_txn sql ld tbl = Inr (n, ld', tbl')"
    using lockArray_impl_unchanged_or_txn [of env tbl ld ec] unfolding tbl'_def by blast
  then have "tbl' = tbl
   \<or> (instanceRole ld = COORD \<and> tbl' = tbl @ [coordRow ld]
        \<and> (lockMode ld = RD
            \<or> ((lockMode ld = WR \<or> lockMode ld = CRT)
                \<and> \<not> (\<exists>avl \<in> set tbl. array_name avl = arrayName ld
                          \<and> query_id avl \<noteq> queryId ld \<and> lock_mode avl > modeInt RD))
            \<or> ((lockMode ld = XCL \<or> lockMode ld = RM \<or> lockMode ld = RNF)
                \<and> \<not> (\<exists>avl \<in> set tbl. array_name avl = arrayName ld
                          \<and> query_id avl \<noteq> queryId ld))))
   \<or> (instanceRole ld = WORKER
        \<and> (\<exists>cands. set cands \<subseteq> set tbl
              \<and> tbl' = tbl @ map (copy_row (instanceId ld) (roleInt WORKER)) cands))"
  proof cases
    case 1
    then show ?thesis by simp
  next
    case 2
    from getLockInsertSql_Inr [OF 2(1)]
    consider (rd) "instanceRole ld = COORD" "lockMode ld = RD" "sql = CoordRdSql"
      | (wr) "instanceRole ld = COORD" "lockMode ld = WR \<or> lockMode ld = CRT" "sql = CoordWrSql"
      | (wwr) "instanceRole ld = WORKER" "lockMode ld = WR" "sql = WorkerWrSql"
      | (ex) "instanceRole ld = COORD" "lockMode ld = XCL \<or> lockMode ld = RM \<or> lockMode ld = RNF"
          "sql = CoordExclSql"
      | (wx) "instanceRole ld = WORKER" "lockMode ld = XCL" "sql = WorkerXclSql"
      by blast
    then show ?thesis
    proof cases
      case rd
      from 2(2) have "tbl' = tbl \<or> tbl' = tbl @ [coordRow ld]"
        unfolding rd(3) lockArray_txn_CoordRd [OF rd(1,2)]
        by (blast dest: guarded_insert_cases [OF if_Inl_Inr])
      with rd(1,2) show ?thesis by blast
    next
      case wr
      from 2(2) have "tbl' = tbl
          \<or> (\<not> (\<exists>avl \<in> set tbl. array_name avl = arrayName ld
                          \<and> query_id avl \<noteq> queryId ld \<and> lock_mode avl > modeInt RD)
              \<and> tbl' = tbl @ [coordRow ld])"
        unfolding wr(3) lockArray_txn_CoordWr [OF wr(1,2)]
        by (rule guarded_insert_cases [OF if_Inl_Inr])
      with wr(1,2) show ?thesis by blast
    next
      case wwr
      from lockArray_txn_WorkerWr_table [OF wwr(1,2) 2(2) [unfolded wwr(3)]] wwr(1)
      show ?thesis by blast
    next
      case ex
      from 2(2) have "tbl' = tbl
          \<or> (\<not> (\<exists>avl \<in> set tbl. array_name avl = arrayName ld
                          \<and> query_id avl \<noteq> queryId ld)
              \<and> tbl' = tbl @ [coordRow ld])"
        unfolding ex(3) lockArray_txn_CoordExcl [OF ex(1,2)]
        by (rule guarded_insert_cases [OF if_Inl_Inr])
      with ex(1,2) show ?thesis by blast
    next
      case wx
      from lockArray_txn_WorkerXcl_table [OF wx(1,2) 2(2) [unfolded wx(3)]] wx(1)
      show ?thesis by blast
    qed
  qed
  then show ?thesis unfolding tbl'_def .
qed

lemma copy_row_fields:
  "array_name (copy_row i w c) = array_name c" "query_id (copy_row i w c) = query_id c"
  "lock_mode (copy_row i w c) = lock_mode c"
  by (simp_all add: copy_row_def)

lemma coordRow_fields:
  "array_name (coordRow ld) = arrayName ld" "query_id (coordRow ld) = queryId ld"
  "lock_mode (coordRow ld) = modeInt (lockMode ld)"
  by (simp_all add: coordRow_def)

lemma lockArray_step_mutex:
  assumes "lockMutualExclusion tbl"
  shows "lockMutualExclusion (snd (snd (lockArray_impl env tbl ld ec)))"
proof -
  define tbl' where "tbl' = snd (snd (lockArray_impl env tbl ld ec))"
  from lockArray_impl_table [of env tbl ld ec]
  consider (same) "tbl' = tbl"
    | (coord) "tbl' = tbl @ [coordRow ld]"
        "lockMode ld = RD
         \<or> ((lockMode ld = WR \<or> lockMode ld = CRT)
             \<and> \<not> (\<exists>avl \<in> set tbl. array_name avl = arrayName ld
                       \<and> query_id avl \<noteq> queryId ld \<and> lock_mode avl > modeInt RD))
         \<or> ((lockMode ld = XCL \<or> lockMode ld = RM \<or> lockMode ld = RNF)
             \<and> \<not> (\<exists>avl \<in> set tbl. array_name avl = arrayName ld
                       \<and> query_id avl \<noteq> queryId ld))"
    | (worker) cands where "set cands \<subseteq> set tbl"
        "tbl' = tbl @ map (copy_row (instanceId ld) (roleInt WORKER)) cands"
    unfolding tbl'_def by blast
  then have "lockMutualExclusion tbl'"
  proof cases
    case same
    with assms show ?thesis by simp
  next
    case coord
    have "lock_mode (coordRow ld) > modeInt RD \<longrightarrow>
           (\<forall>r \<in> set tbl. array_name r = array_name (coordRow ld) \<and> lock_mode r > modeInt RD
               \<longrightarrow> query_id r = query_id (coordRow ld))"
      using coord(2) unfolding coordRow_fields by auto
    from mutex_append_one [OF assms this] coord(1) show ?thesis by simp
  next
    case worker
    have "\<forall>r' \<in> set tbl'. \<exists>r \<in> set tbl. array_name r = array_name r' \<and> query_id r = query_id r'
                          \<and> (lock_mode r' > modeInt RD \<longrightarrow> lock_mode r > modeInt RD)"
    proof
      fix r' assume "r' \<in> set tbl'"
      then consider "r' \<in> set tbl" | c where "c \<in> set cands" "r' = copy_row (instanceId ld) (roleInt WORKER) c"
        unfolding worker(2) by auto
      then show "\<exists>r \<in> set tbl. array_name r = array_name r' \<and> query_id r = query_id r'
                          \<and> (lock_mode r' > modeInt RD \<longrightarrow> lock_mode r > modeInt RD)"
      proof cases
        case 1
        then show ?thesis by blast
      next
        case 2
        with worker(1) have "c \<in> set tbl" by blast
        with 2(2) show ?thesis using copy_row_fields by metis
      qed
    qed
    from mutex_dominated [OF assms this] show ?thesis .
  qed
  then show ?thesis unfolding tbl'_def .
qed

lemma filter_step_mutex:
  assumes "lockMutualExclusion tbl"
  shows "lockMutualExclusion (filter P tbl)"
  by (rule mutex_dominated [OF assms]) auto

lemma update_step_mutex:
  assumes "lockMutualExclusion tbl" and "\<not> promoting (UpdateArrayLock env ld) tbl"
  shows "lockMutualExclusion (snd (updateArrayLock_impl env tbl ld))"
proof (cases "env read_committed")
  case (Some e)
  with assms(1) show ?thesis by (simp add: updateArrayLock_impl_def)
next
  case None
  define f where "f = (\<lambda>r. if holds_key ld r
                    then r\<lparr>array_id := arrayId ld, array_version_id := arrayVersionId ld,
                           array_version := arrayVersion ld, lock_mode := modeInt (lockMode ld)\<rparr>
                    else r)"
  have t: "snd (updateArrayLock_impl env tbl ld) = map f tbl
           \<or> snd (updateArrayLock_impl env tbl ld) = tbl"
    using None by (simp add: updateArrayLock_impl_def f_def)
  have np: "modeInt (lockMode ld) > modeInt RD \<Longrightarrow> \<forall>r \<in> set tbl. holds_key ld r \<longrightarrow> lock_mode r > modeInt RD"
    using assms(2) by auto
  have "\<forall>r' \<in> set (map f tbl). \<exists>r \<in> set tbl. array_name r = array_name r' \<and> query_id r = query_id r'
                          \<and> (lock_mode r' > modeInt RD \<longrightarrow> lock_mode r > modeInt RD)"
  proof
    fix r' assume "r' \<in> set (map f tbl)"
    then obtain r where r: "r \<in> set tbl" "r' = f r" by auto
    have "array_name r = array_name r' \<and> query_id r = query_id r'
            \<and> (lock_mode r' > modeInt RD \<longrightarrow> lock_mode r > modeInt RD)"
      using r np by (cases "holds_key ld r") (auto simp: f_def)
    with r(1) show "\<exists>r \<in> set tbl. array_name r = array_name r' \<and> query_id r = query_id r'
                          \<and> (lock_mode r' > modeInt RD \<longrightarrow> lock_mode r > modeInt RD)" by blast
  qed
  from mutex_dominated [OF assms(1) this] t assms(1) show ?thesis by auto
qed

lemma lock_step_mutex:
  assumes "lockMutualExclusion tbl" and "\<not> promoting x tbl"
  shows "lockMutualExclusion (lock_step x tbl)"
proof (cases x)
  case (LockArray env ld ec)
  with lockArray_step_mutex [OF assms(1)] show ?thesis by simp
next
  case (UnlockArray env ld)
  with assms(1) filter_step_mutex [OF assms(1)] show ?thesis
    by (cases "env read_committed") (simp_all add: unlockArray_impl_def)
next
  case (UpdateArrayLock env ld)
  with update_step_mutex assms show ?thesis by simp
next
  case (DeleteArrayLocks iq env inst q role)
  with assms(1) filter_step_mutex [OF assms(1)] show ?thesis
    by (cases "env read_committed") (simp_all add: deleteArrayLocks_impl_def Let_def)
qed

lemma run_mutex:
  "lockMutualExclusion tbl \<Longrightarrow> promotion_free ops tbl \<Longrightarrow> lockMutualExclusion (fold lock_step ops tbl)"
proof (induction ops arbitrary: tbl)
  case Nil
  then show ?case by simp
next
  case (Cons x xs)
  from Cons.prems have "lockMutualExclusion (lock_step x tbl)" "promotion_free xs (lock_step x tbl)"
    by (simp_all add: lock_step_mutex)
  from Cons.IH [OF this] show ?case by simp
qed

lemma coord_insert_guard:
  assumes "instanceRole ld = COORD" and "snd (snd (lockArray_impl env tbl ld ec)) \<noteq> tbl"
  shows "snd (snd (lockArray_impl env tbl ld ec)) = tbl @ [coordRow ld]
       \<and> (lockMode ld = WR \<or> lockMode ld = CRT \<longrightarrow>
            \<not> (\<exists>avl \<in> set tbl. array_name avl = arrayName ld
                  \<and> query_id avl \<noteq> queryId ld \<and> lock_mode avl > modeInt RD))
       \<and> (lockMode ld = XCL \<or> lockMode ld = RM \<or> lockMode ld = RNF \<longrightarrow>
            \<not> (\<exists>avl \<in> set tbl. array_name avl = arrayName ld \<and> query_id avl \<noteq> queryId ld))"
  using lockArray_impl_table [of env tbl ld ec] assms by auto

lemma coord_blocked:
  assumes "instanceRole ld = COORD"
    and "lockMode ld = WR \<or> lockMode ld = CRT \<or> lockMode ld = XCL \<or> lockMode ld = RM
         \<or> lockMode ld = RNF"
    and "r \<in> set tbl" and "array_name r = arrayName ld" and "query_id r \<noteq> queryId ld"
    and "lock_mode r > modeInt RD"
  shows "fst (lockArray_impl healthy tbl ld ec) \<noteq> Inr True
       \<and> snd (snd (lockArray_impl healthy tbl ld ec)) = tbl"
proof -
  have b1: "\<exists>avl \<in> set tbl. array_name avl = arrayName ld \<and> query_id avl \<noteq> queryId ld
              \<and> lock_mode avl > modeInt RD"
    using assms(3-6) by blast
  then have b2: "\<exists>avl \<in> set tbl. array_name avl = arrayName ld \<and> query_id avl \<noteq> queryId ld"
    by blast
  consider (wr) "lockMode ld = WR \<or> lockMode ld = CRT"
    | (ex) "lockMode ld = XCL \<or> lockMode ld = RM \<or> lockMode ld = RNF"
    using assms(2) by blast
  then show ?thesis
  proof cases
    case wr
    then have sql: "getLockInsertSql ld = Inr CoordWrSql"
      using assms(1) by (auto simp: getLockInsertSql_def)
    have "lockArray_txn CoordWrSql ld tbl = Inr (0, ld, tbl)
          \<or> lockArray_txn CoordWrSql ld tbl = Inl (Pq out_of_range)"
      unfolding lockArray_txn_CoordWr [OF assms(1) wr] using b1 by simp
    then show ?thesis
    proof
      assume "lockArray_txn CoordWrSql ld tbl = Inr (0, ld, tbl)"
      then show ?thesis
        using assms(1) by (simp add: lockArray_impl_def sql healthy_def)
    next
      assume "lockArray_txn CoordWrSql ld tbl = Inl (Pq out_of_range)"
      then show ?thesis
        by (simp add: lockArray_impl_def sql healthy_def lockArray_catch_def out_of_range_def)
    qed
  next
    case ex
    then have sql: "getLockInsertSql ld = Inr CoordExclSql"
      using assms(1) by (auto simp: getLockInsertSql_def)
    have "lockArray_txn CoordExclSql ld tbl = Inr (0, ld, tbl)
          \<or> lockArray_txn CoordExclSql ld tbl = Inl (Pq out_of_range)"
      unfolding lockArray_txn_CoordExcl [OF assms(1) ex] using b2 by simp
    then show ?thesis
    proof
      assume "lockArray_txn CoordExclSql ld tbl = Inr (0, ld, tbl)"
      then show ?thesis
        using assms(1) by (simp add: lockArray_impl_def sql healthy_def)
    next
      assume "lockArray_txn CoordExclSql ld tbl = Inl (Pq out_of_range)"
      then show ?thesis
        by (simp add: lockArray_impl_def sql healthy_def lockArray_catch_def out_of_range_def)
    qed
  qed
qed

text \<open>
  C1, as the code has it. Take a run of lockArray, unlockArray, updateArrayLock and
  deleteArrayLocks steps from the empty table, under any behaviour of the store, in which
  no updateArrayLock gives a mode above RD to a row held in a mode that is not above RD.
  In the table \<open>T\<close> it reaches, all rows for one array name in a mode above RD (WR, CRT,
  XCL, RM, RNF) belong to one query. On \<open>T\<close> a coordinator's INSERT adds its row only if,
  for WR and CRT, no row for the array name of another query has a mode above RD, and for
  XCL, RM and RNF, no row for the array name of another query exists. After a
  coordinator's row in one of these five modes was added, a coordinator of another query
  asking for one of these modes on the same array is not granted the lock and adds no
  row.
\<close>

theorem lock_mutual_exclusion:
  assumes "promotion_free ops []"
  shows "let T = fold lock_step ops [] in
     lockMutualExclusion T
     \<and> (instanceRole ld = COORD \<and> snd (snd (lockArray_impl env T ld ec)) \<noteq> T \<longrightarrow>
          snd (snd (lockArray_impl env T ld ec)) = T @ [coordRow ld]
          \<and> (lockMode ld = WR \<or> lockMode ld = CRT \<longrightarrow>
               \<not> (\<exists>avl \<in> set T. array_name avl = arrayName ld
                     \<and> query_id avl \<noteq> queryId ld \<and> lock_mode avl > modeInt RD))
          \<and> (lockMode ld = XCL \<or> lockMode ld = RM \<or> lockMode ld = RNF \<longrightarrow>
               \<not> (\<exists>avl \<in> set T. array_name avl = arrayName ld \<and> query_id avl \<noteq> queryId ld)))
     \<and> (instanceRole ld = COORD \<and> instanceRole ld2 = COORD
          \<and> lockMode ld \<in> {WR, CRT, XCL, RM, RNF} \<and> lockMode ld2 \<in> {WR, CRT, XCL, RM, RNF}
          \<and> arrayName ld2 = arrayName ld \<and> queryId ld2 \<noteq> queryId ld
          \<and> snd (snd (lockArray_impl env T ld ec)) \<noteq> T \<longrightarrow>
          fst (lockArray_impl healthy (snd (snd (lockArray_impl env T ld ec))) ld2 ec2) \<noteq> Inr True
          \<and> snd (snd (lockArray_impl healthy (snd (snd (lockArray_impl env T ld ec))) ld2 ec2))
              = snd (snd (lockArray_impl env T ld ec)))"
proof -
  define T where "T = fold lock_step ops []"
  have inv: "lockMutualExclusion T"
    unfolding T_def by (rule run_mutex [OF _ assms]) (simp add: lockMutualExclusion_def)
  have guard: "instanceRole ld = COORD \<and> snd (snd (lockArray_impl env T ld ec)) \<noteq> T \<longrightarrow>
          snd (snd (lockArray_impl env T ld ec)) = T @ [coordRow ld]
          \<and> (lockMode ld = WR \<or> lockMode ld = CRT \<longrightarrow>
               \<not> (\<exists>avl \<in> set T. array_name avl = arrayName ld
                     \<and> query_id avl \<noteq> queryId ld \<and> lock_mode avl > modeInt RD))
          \<and> (lockMode ld = XCL \<or> lockMode ld = RM \<or> lockMode ld = RNF \<longrightarrow>
               \<not> (\<exists>avl \<in> set T. array_name avl = arrayName ld \<and> query_id avl \<noteq> queryId ld))"
    using coord_insert_guard [of ld env T ec] by blast
  have conflict: "instanceRole ld = COORD \<and> instanceRole ld2 = COORD
          \<and> lockMode ld \<in> {WR, CRT, XCL, RM, RNF} \<and> lockMode ld2 \<in> {WR, CRT, XCL, RM, RNF}
          \<and> arrayName ld2 = arrayName ld \<and> queryId ld2 \<noteq> queryId ld
          \<and> snd (snd (lockArray_impl env T ld ec)) \<noteq> T \<longrightarrow>
          fst (lockArray_impl healthy (snd (snd (lockArray_impl env T ld ec))) ld2 ec2) \<noteq> Inr True
          \<and> snd (snd (lockArray_impl healthy (snd (snd (lockArray_impl env T ld ec))) ld2 ec2))
              = snd (snd (lockArray_impl env T ld ec))"
  proof (intro impI, elim conjE)
    assume c: "instanceRole ld = COORD" "instanceRole ld2 = COORD"
      and m: "lockMode ld \<in> {WR, CRT, XCL, RM, RNF}" "lockMode ld2 \<in> {WR, CRT, XCL, RM, RNF}"
      and n: "arrayName ld2 = arrayName ld" "queryId ld2 \<noteq> queryId ld"
      and ch: "snd (snd (lockArray_impl env T ld ec)) \<noteq> T"
    define T1 where "T1 = snd (snd (lockArray_impl env T ld ec))"
    from coord_insert_guard [OF c(1) ch] have "T1 = T @ [coordRow ld]" by (simp add: T1_def)
    then have mem: "coordRow ld \<in> set T1" by simp
    have gt: "lock_mode (coordRow ld) > modeInt RD"
      using m(1) by (auto simp: coordRow_fields)
    have "fst (lockArray_impl healthy T1 ld2 ec2) \<noteq> Inr True
       \<and> snd (snd (lockArray_impl healthy T1 ld2 ec2)) = T1"
      using m(2) n by (intro coord_blocked [OF c(2) _ mem _ _ gt]) (auto simp: coordRow_fields)
    then show "fst (lockArray_impl healthy (snd (snd (lockArray_impl env T ld ec))) ld2 ec2) \<noteq> Inr True
          \<and> snd (snd (lockArray_impl healthy (snd (snd (lockArray_impl env T ld ec))) ld2 ec2))
              = snd (snd (lockArray_impl env T ld ec))"
      unfolding T1_def .
  qed
  from inv guard conflict show ?thesis unfolding Let_def T_def [symmetric] by blast
qed

theorem lock_mutual_exclusion_witness:
  "promotion_free
     [LockArray healthy (newLockDesc ''A'' 5 10 COORD CRT) None,
      LockArray healthy (newLockDesc ''A'' 6 20 COORD WR) (Some False),
      LockArray healthy (newLockDesc ''A'' 5 11 WORKER WR) None,
      UpdateArrayLock healthy ((newLockDesc ''A'' 5 10 COORD WR)\<lparr>arrayId := 7\<rparr>),
      UnlockArray healthy (newLockDesc ''A'' 5 11 WORKER WR)] []
   \<and> fold lock_step
     [LockArray healthy (newLockDesc ''A'' 5 10 COORD CRT) None,
      LockArray healthy (newLockDesc ''A'' 6 20 COORD WR) (Some False),
      LockArray healthy (newLockDesc ''A'' 5 11 WORKER WR) None,
      UpdateArrayLock healthy ((newLockDesc ''A'' 5 10 COORD WR)\<lparr>arrayId := 7\<rparr>),
      UnlockArray healthy (newLockDesc ''A'' 5 11 WORKER WR)] []
     = [coordRow ((newLockDesc ''A'' 5 10 COORD WR)\<lparr>arrayId := 7\<rparr>)]
   \<and> lockMutualExclusion
       (fold lock_step
         [LockArray healthy (newLockDesc ''A'' 5 10 COORD CRT) None,
          LockArray healthy (newLockDesc ''A'' 6 20 COORD WR) (Some False),
          LockArray healthy (newLockDesc ''A'' 5 11 WORKER WR) None,
          UpdateArrayLock healthy ((newLockDesc ''A'' 5 10 COORD WR)\<lparr>arrayId := 7\<rparr>),
          UnlockArray healthy (newLockDesc ''A'' 5 11 WORKER WR)] [])
   \<and> snd (snd (lockArray_impl healthy [] (newLockDesc ''A'' 5 10 COORD CRT) None))
       = [coordRow (newLockDesc ''A'' 5 10 COORD CRT)]
   \<and> fst (lockArray_impl healthy
            (snd (snd (lockArray_impl healthy [] (newLockDesc ''A'' 5 10 COORD CRT) None)))
            (newLockDesc ''A'' 6 20 COORD WR) (Some False)) \<noteq> Inr True"
proof -
  let ?ops = "[LockArray healthy (newLockDesc ''A'' 5 10 COORD CRT) None,
      LockArray healthy (newLockDesc ''A'' 6 20 COORD WR) (Some False),
      LockArray healthy (newLockDesc ''A'' 5 11 WORKER WR) None,
      UpdateArrayLock healthy ((newLockDesc ''A'' 5 10 COORD WR)\<lparr>arrayId := 7\<rparr>),
      UnlockArray healthy (newLockDesc ''A'' 5 11 WORKER WR)]"
  let ?l1 = "newLockDesc ''A'' 5 10 COORD CRT"
  let ?l2 = "newLockDesc ''A'' 6 20 COORD WR"
  have free: "promotion_free ?ops []" by code_simp
  have run: "fold lock_step ?ops [] = [coordRow ((newLockDesc ''A'' 5 10 COORD WR)\<lparr>arrayId := 7\<rparr>)]"
    by code_simp
  have inv: "lockMutualExclusion (fold lock_step ?ops [])"
    using lock_mutual_exclusion [OF free] by (simp only: Let_def)
  have free0: "promotion_free [] []" by simp
  have first: "snd (snd (lockArray_impl healthy [] ?l1 None)) = [coordRow ?l1]"
    by code_simp
  have hyp: "instanceRole ?l1 = COORD \<and> instanceRole ?l2 = COORD
          \<and> lockMode ?l1 \<in> {WR, CRT, XCL, RM, RNF} \<and> lockMode ?l2 \<in> {WR, CRT, XCL, RM, RNF}
          \<and> arrayName ?l2 = arrayName ?l1 \<and> queryId ?l2 \<noteq> queryId ?l1
          \<and> snd (snd (lockArray_impl healthy (fold lock_step [] []) ?l1 None)) \<noteq> fold lock_step [] []"
    by (simp add: first) (simp add: newLockDesc_def)
  have second: "fst (lockArray_impl healthy (snd (snd (lockArray_impl healthy [] ?l1 None)))
            ?l2 (Some False)) \<noteq> Inr True"
    using lock_mutual_exclusion [OF free0, of ?l1 healthy None ?l2 "Some False"] hyp
    by (simp only: Let_def fold_simps) blast
  from free run inv first second show ?thesis by blast
qed

text \<open>C1 as stated fails on a run with updateArrayLock steps. Two coordinators of
  different queries each take a read lock on the array, which the protocol allows; each
  then updates its lock to mode WR. The table reached holds two WR rows for one array
  name from two queries.\<close>

theorem lock_mutual_exclusion_counterexample:
  "\<not> lockMutualExclusion
       (fold lock_step
          [LockArray healthy (newLockDesc ''A'' 5 10 COORD RD) None,
           LockArray healthy (newLockDesc ''A'' 6 20 COORD RD) None,
           UpdateArrayLock healthy (newLockDesc ''A'' 5 10 COORD WR),
           UpdateArrayLock healthy (newLockDesc ''A'' 6 20 COORD WR)] [])
   \<and> fold lock_step
          [LockArray healthy (newLockDesc ''A'' 5 10 COORD RD) None,
           LockArray healthy (newLockDesc ''A'' 6 20 COORD RD) None,
           UpdateArrayLock healthy (newLockDesc ''A'' 5 10 COORD WR),
           UpdateArrayLock healthy (newLockDesc ''A'' 6 20 COORD WR)] []
      = [coordRow (newLockDesc ''A'' 5 10 COORD WR), coordRow (newLockDesc ''A'' 6 20 COORD WR)]"
  by code_simp

end
